theory Spec2Isabelle
  imports Main
begin

section \<open>Python values and built-ins used by the service\<close>

text \<open>
  The share price checker is a Flask application (\<^verbatim>\<open>app.py\<close>) answering USSD
  requests, a SQLite access layer (\<^verbatim>\<open>db.py\<close>) and a notification scheduler
  (\<^verbatim>\<open>wen.py\<close>). The functions are embedded as HOL functions over an explicit state;
  exceptions are values of \<open>py_error\<close>.

  Modelling conventions.
  \<^item> A character is a code point below 256; \<open>int()\<close>, \<open>str.isdigit\<close> and
    \<open>str.lower\<close> are modelled as CPython defines them on that range.
  \<^item> Python integers are unbounded (\<open>int\<close>); the optional limit on the number of
    digits \<open>int()\<close> accepts is not modelled.
  \<^item> A catalog entry is a dictionary with a string \<open>name\<close> and a numeric
    \<open>price\<close>. The format \<^verbatim>\<open>{price:.2f}\<close> of a float is a parameter \<open>fmt\<close>.
  \<^item> The column \<open>subscribed_stocks\<close> holds the JSON text of a list of strings;
    \<open>json.loads (json.dumps xs) = xs\<close> on such lists, so the column is modelled by the
    list itself.
\<close>

datatype py_error = ValueError | IndexError

definition int_space :: "char \<Rightarrow> bool" where
  \<comment> \<open>the characters \<open>int()\<close> strips at both ends\<close>
  "int_space c = (let n = (of_char c :: nat) in (9 \<le> n \<and> n \<le> 13) \<or> n = 32 \<or> n = 133 \<or> n = 160)"

definition ascii_digit :: "char \<Rightarrow> bool" where
  "ascii_digit c = (let n = (of_char c :: nat) in 48 \<le> n \<and> n \<le> 57)"

definition digit_value :: "char \<Rightarrow> int" where
  "digit_value c = int (of_char c) - 48"

definition strip_int :: "string \<Rightarrow> string" where
  "strip_int s = rev (dropWhile int_space (rev (dropWhile int_space s)))"

fun int_body_ok :: "string \<Rightarrow> bool" where
  \<comment> \<open>decimal digits, single underscores allowed between two digits\<close>
  "int_body_ok [] = False"
| "int_body_ok [c] = ascii_digit c"
| "int_body_ok (c # d # cs) =
     (ascii_digit c \<and> (if d = CHR ''_'' then int_body_ok cs else int_body_ok (d # cs)))"

definition int_body_value :: "string \<Rightarrow> int" where
  "int_body_value s = foldl (\<lambda>a c. 10 * a + digit_value c) 0 (filter (\<lambda>c. c \<noteq> CHR ''_'') s)"

definition py_int :: "string \<Rightarrow> py_error + int" where
  \<comment> \<open>\<open>int(s)\<close>: raises \<open>ValueError\<close> unless \<open>s\<close> is a decimal literal\<close>
  "py_int s =
     (let t = strip_int s;
          sgn_body = (case t of
                        [] \<Rightarrow> (1, [])
                      | c # r \<Rightarrow> if c = CHR ''+'' then (1, r)
                                 else if c = CHR ''-'' then (- 1, r)
                                 else (1, t))
      in if int_body_ok (snd sgn_body) then Inr (fst sgn_body * int_body_value (snd sgn_body))
         else Inl ValueError)"

definition py_isdigit_char :: "char \<Rightarrow> bool" where
  \<comment> \<open>the decimal digits and the superscripts two, three and one\<close>
  "py_isdigit_char c = (let n = (of_char c :: nat) in (48 \<le> n \<and> n \<le> 57) \<or> n = 178 \<or> n = 179 \<or> n = 185)"

definition py_isdigit :: "string \<Rightarrow> bool" where
  "py_isdigit s = (s \<noteq> [] \<and> list_all py_isdigit_char s)"

definition py_lower_char :: "char \<Rightarrow> char" where
  "py_lower_char c =
     (let n = (of_char c :: nat)
      in if (65 \<le> n \<and> n \<le> 90) \<or> (192 \<le> n \<and> n \<le> 222 \<and> n \<noteq> 215) then char_of (n + 32) else c)"

definition py_lower :: "string \<Rightarrow> string" where
  "py_lower s = map py_lower_char s"

fun split_star :: "string \<Rightarrow> string list" where
  \<comment> \<open>\<open>text.split('*')\<close>\<close>
  "split_star [] = [[]]"
| "split_star (c # cs) =
     (if c = CHR ''*'' then [] # split_star cs
      else (c # hd (split_star cs)) # tl (split_star cs))"

fun join :: "string \<Rightarrow> string list \<Rightarrow> string" where
  \<comment> \<open>\<open>sep.join(xs)\<close>\<close>
  "join sep [] = []"
| "join sep [x] = x"
| "join sep (x # y # ys) = x @ sep @ join sep (y # ys)"

definition startswith :: "string \<Rightarrow> string \<Rightarrow> bool" where
  "startswith text p = (take (length p) text = p)"

definition digit_char :: "nat \<Rightarrow> char" where
  "digit_char d = ''0123456789'' ! d"

fun str_nat :: "nat \<Rightarrow> string" where
  \<comment> \<open>\<open>str(n)\<close> of a non-negative integer\<close>
  "str_nat n = (if n < 10 then [digit_char n] else str_nat (n div 10) @ [digit_char (n mod 10)])"

declare str_nat.simps [simp del]

definition py_position :: "nat \<Rightarrow> int \<Rightarrow> nat option" where
  \<comment> \<open>the position an index denotes in a list of \<open>len\<close> elements, counted from the end when negative\<close>
  "py_position len i =
     (if 0 \<le> i \<and> i < int len then Some (nat i)
      else if i < 0 \<and> - int len \<le> i then Some (nat (int len + i))
      else None)"

definition py_getitem :: "'a list \<Rightarrow> int \<Rightarrow> py_error + 'a" where
  \<comment> \<open>\<open>xs[i]\<close>\<close>
  "py_getitem xs i = (case py_position (length xs) i of None \<Rightarrow> Inl IndexError | Some k \<Rightarrow> Inr (xs ! k))"

definition py_pop :: "'a list \<Rightarrow> int \<Rightarrow> py_error + ('a \<times> 'a list)" where
  \<comment> \<open>\<open>xs.pop(i)\<close>: the element removed and the list left\<close>
  "py_pop xs i =
     (case py_position (length xs) i of
        None \<Rightarrow> Inl IndexError
      | Some k \<Rightarrow> Inr (xs ! k, take k xs @ drop (Suc k) xs))"

section \<open>The subscriber table (db.py)\<close>

record subscriber =
  phone_number :: string
  subscribed_stocks :: "string list"
  market_open_notify :: int
  market_close_notify :: int

datatype preference_type = Market_open_notify | Market_close_notify

definition get_subscriber :: "string \<Rightarrow> subscriber list \<Rightarrow> subscriber option" where
  \<comment> \<open>\<open>fetchone()\<close> of the rows with this key\<close>
  "get_subscriber p rows = find (\<lambda>r. phone_number r = p) rows"

definition add_subscriber :: "string \<Rightarrow> subscriber list \<Rightarrow> bool \<times> subscriber list" where
  \<comment> \<open>the insert violates the primary key when the number is there: nothing changes\<close>
  "add_subscriber p rows =
     (if p \<in> set (map phone_number rows) then (False, rows)
      else (True, rows @ [\<lparr>phone_number = p, subscribed_stocks = [],
                           market_open_notify = 0, market_close_notify = 0\<rparr>]))"

definition remove_subscriber :: "string \<Rightarrow> subscriber list \<Rightarrow> subscriber list" where
  "remove_subscriber p rows = filter (\<lambda>r. phone_number r \<noteq> p) rows"

definition update_subscribed_stocks :: "string \<Rightarrow> string list \<Rightarrow> subscriber list \<Rightarrow> subscriber list" where
  "update_subscribed_stocks p stocks rows =
     map (\<lambda>r. if phone_number r = p then r\<lparr>subscribed_stocks := stocks\<rparr> else r) rows"

definition update_notification_preference ::
  "string \<Rightarrow> preference_type \<Rightarrow> int \<Rightarrow> subscriber list \<Rightarrow> subscriber list" where
  "update_notification_preference p pt v rows =
     map (\<lambda>r. if phone_number r = p
               then (case pt of Market_open_notify \<Rightarrow> r\<lparr>market_open_notify := v\<rparr>
                              | Market_close_notify \<Rightarrow> r\<lparr>market_close_notify := v\<rparr>)
               else r) rows"

definition get_all_subscribers :: "subscriber list \<Rightarrow> subscriber list" where
  "get_all_subscribers rows = rows"

section \<open>The USSD application (app.py)\<close>

record 'p stock =
  name :: string
  price :: 'p

text \<open>
  The state a request runs in: the table, the module-level catalog
  \<open>CURRENT_STOCKS_DATA\<close>, and the list that \<open>load_stocks_data\<close> reads from the
  JSON file (empty when the file is missing, empty or not JSON).
\<close>

record 'p state =
  db :: "subscriber list"
  CURRENT_STOCKS_DATA :: "'p stock list"
  stocks_json_file :: "'p stock list"

definition load_stocks_data :: "'p state \<Rightarrow> 'p state" where
  "load_stocks_data s = s\<lparr>CURRENT_STOCKS_DATA := stocks_json_file s\<rparr>"

definition main_menu_response :: string where
  "main_menu_response =
     ''CON Welcome to Share Price Tracker!\<newline>'' @
     ''1. Subscribe\<newline>'' @
     ''2. View Stocks\<newline>'' @
     ''3. My Subscriptions\<newline>'' @
     ''4. Unsubscribe''"

definition numbered :: "string list \<Rightarrow> string list" where
  \<comment> \<open>\<open>[f"{i+1}. {s}" for i, s in enumerate(xs)]\<close>\<close>
  "numbered xs = map (\<lambda>(i, s). str_nat (i + 1) @ ''. '' @ s) (enumerate 0 xs)"

definition display_stocks_menu :: "string \<Rightarrow> string \<Rightarrow> 'p state \<Rightarrow> string \<times> 'p state" where
  "display_stocks_menu phone current_text_path s =
     (let s1 = (if CURRENT_STOCKS_DATA s = [] then load_stocks_data s else s)
      in if CURRENT_STOCKS_DATA s1 = []
         then (''No stock data available at the moment. Please try again later.'', s1)
         else (''Available Stocks:\<newline>'' @
               concat (map (\<lambda>l. l @ ''\<newline>'') (numbered (map name (take 10 (CURRENT_STOCKS_DATA s1))))) @
               ''Enter stock number to select.\<newline>'' @
               ''0. Back to Main Menu'', s1))"

text \<open>
  A \<^verbatim>\<open>try ... except ValueError\<close> is a case distinction on the result of its body:
  \<open>Inl ValueError\<close> runs the handler, any other exception passes through. In each
  body \<open>int()\<close> is the first statement, so the handler sees the state at entry.
\<close>

definition selection_done :: string where
  \<comment> \<open>the two lines appended to both answers of an accepted selection\<close>
  "selection_done = ''1. Subscribe to another stock\<newline>'' @ ''0. Back to Main Menu''"

definition handle_stock_selection :: "string \<Rightarrow> string \<Rightarrow> 'p state \<Rightarrow> py_error + (string \<times> 'p state)" where
  "handle_stock_selection phone text s =
     (let parts = split_star text;
          selected_option = last parts;
          base_path_for_retry = (if length parts \<ge> 2 then join ''*'' (butlast parts) else ''1'')
      in if selected_option = ''0'' then Inr (main_menu_response, s)
         else
           (case
              (case py_int selected_option of
                 Inl e \<Rightarrow> Inl e
               | Inr v \<Rightarrow>
                   (let index = v - 1
                    in if 0 \<le> index \<and> index < int (length (CURRENT_STOCKS_DATA s))
                       then (case py_getitem (CURRENT_STOCKS_DATA s) index of
                               Inl e \<Rightarrow> Inl e
                             | Inr st \<Rightarrow>
                                 (let selected_stock_name = name st
                                  in case get_subscriber phone (db s) of
                                       None \<Rightarrow> Inr (''END Error: Subscriber not found. Please re-subscribe.'', s)
                                     | Some sub \<Rightarrow>
                                         (let subscribed = subscribed_stocks sub
                                          in if selected_stock_name \<notin> set subscribed
                                             then Inr (''CON Successfully subscribed to '' @ selected_stock_name @ ''.\<newline>'' @ selection_done,
                                                       s\<lparr>db := update_subscribed_stocks phone (subscribed @ [selected_stock_name]) (db s)\<rparr>)
                                             else Inr (''CON You are already subscribed to '' @ selected_stock_name @ ''.\<newline>'' @ selection_done, s))))
                       else (let (menu, s1) = display_stocks_menu phone base_path_for_retry s
                             in Inr (''CON Invalid stock number. Please try again.\<newline>'' @ menu, s1))))
            of
              Inl ValueError \<Rightarrow>
                (let (menu, s1) = display_stocks_menu phone base_path_for_retry s
                 in Inr (''CON Invalid input. Please enter a number.\<newline>'' @ menu, s1))
            | r \<Rightarrow> r))"

definition handle_view_stock_details ::
  "('p \<Rightarrow> string) \<Rightarrow> string \<Rightarrow> string \<Rightarrow> 'p state \<Rightarrow> py_error + (string \<times> 'p state)" where
  "handle_view_stock_details fmt phone text s =
     (let parts = split_star text;
          selected_option = last parts
      in if selected_option = ''0'' then Inr (main_menu_response, s)
         else
           (case
              (case py_int selected_option of
                 Inl e \<Rightarrow> Inl e
               | Inr v \<Rightarrow>
                   (let index = v - 1
                    in if 0 \<le> index \<and> index < int (length (CURRENT_STOCKS_DATA s))
                       then (case py_getitem (CURRENT_STOCKS_DATA s) index of
                               Inl e \<Rightarrow> Inl e
                             | Inr st \<Rightarrow>
                                 Inr (''END '' @ name st @ '': Ksh '' @ fmt (price st) @ ''\<newline>'' @
                                      ''Data in real-time.'', s))
                       else (let (menu, s1) = display_stocks_menu phone ''2'' s
                             in Inr (''CON Invalid stock number. Please try again.\<newline>'' @ menu, s1))))
            of
              Inl ValueError \<Rightarrow>
                (let (menu, s1) = display_stocks_menu phone ''2'' s
                 in Inr (''CON Invalid input. Please enter a number.\<newline>'' @ menu, s1))
            | r \<Rightarrow> r))"

definition subscriptions_menu :: string where
  \<comment> \<open>the options of "My Subscriptions", shown under path \<open>3\<close> and after a removal\<close>
  "subscriptions_menu =
     ''1. Manage Subscribed Stocks\<newline>'' @
     ''2. Set Notification Preferences\<newline>'' @
     ''0. Back to Main Menu''"

definition current_subs_tail :: "string list \<Rightarrow> string" where
  \<comment> \<open>what follows the error line in both error answers of the removal\<close>
  "current_subs_tail subscribed =
     ''Your current subscriptions:\<newline>'' @ join ''\<newline>'' (numbered subscribed) @
     ''\<newline>Enter stock number to remove, or 'add' to add new stocks.\<newline>0. Back to Main Menu''"

definition handle_manage_subscribed_stocks :: "string \<Rightarrow> string \<Rightarrow> 'p state \<Rightarrow> py_error + (string \<times> 'p state)" where
  "handle_manage_subscribed_stocks phone text s =
     (let parts = split_star text;
          action = last parts
      in case get_subscriber phone (db s) of
           None \<Rightarrow> Inr (''END Error: Subscriber not found. Please re-subscribe.'', s)
         | Some sub \<Rightarrow>
             (let subscribed = subscribed_stocks sub
              in if action = ''0'' then Inr (main_menu_response, s)
                 else if py_lower action = ''add''
                 then (let (menu, s1) = display_stocks_menu phone ''3*1*add'' s
                       in Inr (''CON Select stocks to add:\<newline>'' @ menu, s1))
                 else if length parts \<ge> 3 \<and> py_lower (parts ! 2) = ''add'' \<and> py_isdigit action
                 then handle_stock_selection phone (''1*'' @ action) s
                 else
                   (case
                      (case py_int action of
                         Inl e \<Rightarrow> Inl e
                       | Inr v \<Rightarrow>
                           (let remove_index = v - 1
                            in if 0 \<le> remove_index \<and> remove_index < int (length subscribed)
                               then (case py_pop subscribed remove_index of
                                       Inl e \<Rightarrow> Inl e
                                     | Inr (removed_stock, rest) \<Rightarrow>
                                         Inr (''CON Removed '' @ removed_stock @ '' from your subscriptions.\<newline>'' @
                                              subscriptions_menu,
                                              s\<lparr>db := update_subscribed_stocks phone rest (db s)\<rparr>))
                               else Inr (''CON Invalid stock number to remove. Please try again.\<newline>'' @
                                         current_subs_tail subscribed, s)))
                    of
                      Inl ValueError \<Rightarrow>
                        Inr (''CON Invalid input. Please enter a number or 'add'.\<newline>'' @
                             current_subs_tail subscribed, s)
                    | r \<Rightarrow> r)))"

definition on_off :: "int \<Rightarrow> string" where
  \<comment> \<open>\<open>'ON' if flag else 'OFF'\<close>\<close>
  "on_off flag = (if flag \<noteq> 0 then ''ON'' else ''OFF'')"

definition prefs_lines :: "int \<Rightarrow> int \<Rightarrow> string" where
  \<comment> \<open>the four lines that end every answer of the preferences menu\<close>
  "prefs_lines open_flag close_flag =
     ''1. Market Open: '' @ on_off open_flag @ ''\<newline>'' @
     ''2. Market Close: '' @ on_off close_flag @ ''\<newline>'' @
     ''Select an option to toggle.\<newline>'' @
     ''0. Back to Main Menu''"

definition handle_notification_preference :: "string \<Rightarrow> string \<Rightarrow> 'p state \<Rightarrow> py_error + (string \<times> 'p state)" where
  "handle_notification_preference phone text s =
     (let parts = split_star text;
          option = last parts
      in case get_subscriber phone (db s) of
           None \<Rightarrow> Inr (''END Error: Subscriber not found. Please re-subscribe.'', s)
         | Some sub \<Rightarrow>
             (let current_market_open = market_open_notify sub;
                  current_market_close = market_close_notify sub
              in if option = ''1''
                 then (let new_value = (if current_market_open = 0 then 1 else 0)
                       in Inr (''CON Set Notification Preferences:\<newline>'' @ prefs_lines new_value current_market_close,
                               s\<lparr>db := update_notification_preference phone Market_open_notify new_value (db s)\<rparr>))
                 else if option = ''2''
                 then (let new_value = (if current_market_close = 0 then 1 else 0)
                       in Inr (''CON Set Notification Preferences:\<newline>'' @ prefs_lines current_market_open new_value,
                               s\<lparr>db := update_notification_preference phone Market_close_notify new_value (db s)\<rparr>))
                 else if option = ''0'' then Inr (main_menu_response, s)
                 else Inr (''CON Invalid option. Please select 1 or 2.\<newline>'' @
                           prefs_lines current_market_open current_market_close, s)))"

definition invalid_input_response :: string where
  \<comment> \<open>the answer of the final \<open>else\<close> of \<open>ussd_callback\<close>\<close>
  "invalid_input_response = ''END Invalid input. Please try again.''"

definition unsubscribed_response :: string where
  \<comment> \<open>the answer to path \<open>4\<close>\<close>
  "unsubscribed_response = ''END You have successfully unsubscribed from Stock Price Tracker. Goodbye!''"

definition ussd_callback ::
  "('p \<Rightarrow> string) \<Rightarrow> string \<Rightarrow> string \<Rightarrow> 'p state \<Rightarrow> py_error + (string \<times> 'p state)" where
  "ussd_callback fmt phone text s =
     (if text = [] then Inr (main_menu_response, s)
      else if text = ''1'' then
        (case get_subscriber phone (db s) of
           Some sub \<Rightarrow> Inr (''END You are already subscribed! Choose '3' to manage your subscriptions.'', s)
         | None \<Rightarrow>
             (let s1 = s\<lparr>db := snd (add_subscriber phone (db s))\<rparr>;
                  (menu, s2) = display_stocks_menu phone ''1'' s1
              in Inr (''CON You have successfully subscribed!\<newline>'' @
                      ''Now, let's select stocks to track.\<newline>'' @ menu, s2)))
      else if startswith text ''1*'' then handle_stock_selection phone text s
      else if text = ''2'' then
        (let (menu, s1) = display_stocks_menu phone ''2'' s in Inr (''CON '' @ menu, s1))
      else if startswith text ''2*'' then handle_view_stock_details fmt phone text s
      else if text = ''3'' then
        (case get_subscriber phone (db s) of
           None \<Rightarrow> Inr (''END You are not subscribed. Dial again and select '1' to subscribe.'', s)
         | Some sub \<Rightarrow> Inr (''CON My Subscriptions:\<newline>'' @ subscriptions_menu, s))
      else if text = ''3*1'' then
        (case get_subscriber phone (db s) of
           Some sub \<Rightarrow>
             (let subscribed = subscribed_stocks sub
              in if subscribed = []
                 then (let (menu, s1) = display_stocks_menu phone ''3*1'' s
                       in Inr (''CON You have no stocks subscribed yet.\<newline>'' @ menu, s1))
                 else Inr (''CON Your current subscriptions:\<newline>'' @
                           concat (map (\<lambda>l. l @ ''\<newline>'') (numbered subscribed)) @
                           ''--- Add/Remove ---\<newline>'' @
                           ''Enter stock number to remove, or 'add' to add new stocks.\<newline>'' @
                           ''0. Back to Main Menu'', s))
         | None \<Rightarrow> Inr (''END Error: Subscriber not found.'', s))
      else if startswith text ''3*1*'' then handle_manage_subscribed_stocks phone text s
      else if text = ''3*2'' then
        (case get_subscriber phone (db s) of
           Some sub \<Rightarrow>
             Inr (''CON Set Notification Preferences:\<newline>'' @
                  prefs_lines (market_open_notify sub) (market_close_notify sub), s)
         | None \<Rightarrow> Inr (''END Error: Subscriber not found.'', s))
      else if startswith text ''3*2*'' then handle_notification_preference phone text s
      else if text = ''4'' then
        Inr (unsubscribed_response, s\<lparr>db := remove_subscriber phone (db s)\<rparr>)
      else Inr (invalid_input_response, s))"

section \<open>The notification dispatcher (wen.py)\<close>

text \<open>
  \<open>send_market_notification\<close> is called with the literals \<open>'open'\<close> and
  \<open>'close'\<close> only. Its inputs are made explicit: today's date string, the dictionary
  \<open>last_notification_sent\<close>, the rows of \<open>get_all_subscribers\<close> and the list read
  by \<open>get_current_stock_prices\<close>. It returns the send attempts, in order, as pairs of
  recipient and message, and the updated dictionary. A failing \<open>sms.send\<close> is caught
  and logged by the source, so an attempt is recorded either way.
\<close>

datatype notification_type = Open_type | Close_type

definition type_name :: "notification_type \<Rightarrow> string" where
  "type_name nt = (case nt of Open_type \<Rightarrow> ''open'' | Close_type \<Rightarrow> ''close'')"

definition type_capitalize :: "notification_type \<Rightarrow> string" where
  \<comment> \<open>\<open>notification_type.capitalize()\<close>\<close>
  "type_capitalize nt = (case nt of Open_type \<Rightarrow> ''Open'' | Close_type \<Rightarrow> ''Close'')"

record last_notification_sent =
  sent_open :: "string option"
  sent_close :: "string option"

definition stock_dict :: "'p stock list \<Rightarrow> (string \<rightharpoonup> 'p)" where
  \<comment> \<open>the dictionary comprehension: a later entry replaces an earlier one with the same key\<close>
  "stock_dict current_stocks = foldl (\<lambda>m st. m(py_lower (name st) \<mapsto> price st)) Map.empty current_stocks"

fun message_parts_loop ::
  "('p \<Rightarrow> string) \<Rightarrow> (string \<rightharpoonup> 'p) \<Rightarrow> string list \<Rightarrow> string list \<Rightarrow> string list" where
  "message_parts_loop fmt d [] message_parts = message_parts"
| "message_parts_loop fmt d (stock_name # rest) message_parts =
     (case d (py_lower stock_name) of
        Some p \<Rightarrow> message_parts_loop fmt d rest (message_parts @ [stock_name @ '': Ksh '' @ fmt p])
      | None \<Rightarrow> message_parts_loop fmt d rest (message_parts @ [stock_name @ '': Price N/A'']))"

definition build_message ::
  "('p \<Rightarrow> string) \<Rightarrow> notification_type \<Rightarrow> (string \<rightharpoonup> 'p) \<Rightarrow> string list \<Rightarrow> string" where
  "build_message fmt nt d subscribed =
     (if subscribed = []
      then ''Market '' @ type_name nt @ '' update: No stocks selected for notifications. Dial USSD to select.''
      else join ''\<newline>'' (message_parts_loop fmt d subscribed [''Market '' @ type_capitalize nt @ '' Update:'']))"

fun subscribers_loop ::
  "('p \<Rightarrow> string) \<Rightarrow> notification_type \<Rightarrow> (string \<rightharpoonup> 'p) \<Rightarrow> subscriber list \<Rightarrow>
   (string \<times> string) list \<Rightarrow> (string \<times> string) list" where
  "subscribers_loop fmt nt d [] attempts = attempts"
| "subscribers_loop fmt nt d (sub # rest) attempts =
     (let send_notification =
            (if nt = Open_type \<and> market_open_notify sub = 1 then True
             else if nt = Close_type \<and> market_close_notify sub = 1 then True
             else False)
      in if send_notification
         then subscribers_loop fmt nt d rest
                (attempts @ [(phone_number sub, build_message fmt nt d (subscribed_stocks sub))])
         else subscribers_loop fmt nt d rest attempts)"

definition send_market_notification ::
  "('p \<Rightarrow> string) \<Rightarrow> string \<Rightarrow> notification_type \<Rightarrow> last_notification_sent \<Rightarrow>
   subscriber list \<Rightarrow> 'p stock list \<Rightarrow> (string \<times> string) list \<times> last_notification_sent" where
  "send_market_notification fmt today_date_str nt status rows current_stocks =
     (if nt = Open_type \<and> sent_open status = Some today_date_str then ([], status)
      else if nt = Close_type \<and> sent_close status = Some today_date_str then ([], status)
      else if current_stocks = [] then ([], status)
      else (subscribers_loop fmt nt (stock_dict current_stocks) (get_all_subscribers rows) [],
            (case nt of Open_type \<Rightarrow> status\<lparr>sent_open := Some today_date_str\<rparr>
                      | Close_type \<Rightarrow> status\<lparr>sent_close := Some today_date_str\<rparr>)))"

section \<open>Notions of the specification\<close>

definition table_ok :: "subscriber list \<Rightarrow> bool" where
  \<comment> \<open>\<open>phone_number\<close> is the primary key of the table\<close>
  "table_ok rows = distinct (map phone_number rows)"

definition spec_menu_grammar :: "string \<Rightarrow> bool" where
  \<comment> \<open>the path prefix patterns of the specification's table of menu states\<close>
  "spec_menu_grammar text =
     (text \<in> set ['''', ''1'', ''2'', ''3'', ''3*1'', ''3*2'', ''4'']
      \<or> startswith text ''1*'' \<or> startswith text ''2*''
      \<or> startswith text ''3*1*'' \<or> startswith text ''3*2*'')"

definition bad_selection :: "string \<Rightarrow> nat \<Rightarrow> bool" where
  \<comment> \<open>the segment is not an integer, or an integer outside \<open>[1, len]\<close>\<close>
  "bad_selection seg len = (case py_int seg of Inl e \<Rightarrow> True | Inr v \<Rightarrow> v < 1 \<or> int len < v)"

definition selection_error_line :: "string \<Rightarrow> string" where
  \<comment> \<open>the error line of the catalog menus\<close>
  "selection_error_line seg =
     (case py_int seg of
        Inl e \<Rightarrow> ''CON Invalid input. Please enter a number.\<newline>''
      | Inr v \<Rightarrow> ''CON Invalid stock number. Please try again.\<newline>'')"

definition removal_error_line :: "string \<Rightarrow> string" where
  \<comment> \<open>the error line of the removal menu\<close>
  "removal_error_line seg =
     (case py_int seg of
        Inl e \<Rightarrow> ''CON Invalid input. Please enter a number or 'add'.\<newline>''
      | Inr v \<Rightarrow> ''CON Invalid stock number to remove. Please try again.\<newline>'')"

definition flag_set :: "notification_type \<Rightarrow> subscriber \<Rightarrow> bool" where
  \<comment> \<open>the subscriber's flag for this kind of notification is set\<close>
  "flag_set nt sub = (case nt of Open_type \<Rightarrow> market_open_notify sub = 1
                               | Close_type \<Rightarrow> market_close_notify sub = 1)"

definition already_sent :: "notification_type \<Rightarrow> last_notification_sent \<Rightarrow> string \<Rightarrow> bool" where
  "already_sent nt status today =
     (case nt of Open_type \<Rightarrow> sent_open status = Some today
               | Close_type \<Rightarrow> sent_close status = Some today)"

definition spec_lookup :: "'p stock list \<Rightarrow> string \<Rightarrow> 'p option" where
  \<comment> \<open>the price of the catalog entry with this name, letter case ignored; the last such entry\<close>
  "spec_lookup stocks nm = map_option price (find (\<lambda>st. py_lower (name st) = py_lower nm) (rev stocks))"

definition spec_line :: "('p \<Rightarrow> string) \<Rightarrow> 'p stock list \<Rightarrow> string \<Rightarrow> string" where
  \<comment> \<open>the line of one subscribed name: its price, or that the price is unavailable\<close>
  "spec_line fmt stocks nm =
     (case spec_lookup stocks nm of
        Some p \<Rightarrow> nm @ '': Ksh '' @ fmt p
      | None \<Rightarrow> nm @ '': Price N/A'')"

definition spec_message :: "('p \<Rightarrow> string) \<Rightarrow> notification_type \<Rightarrow> 'p stock list \<Rightarrow> string list \<Rightarrow> string" where
  \<comment> \<open>a header and one line for each subscribed name, in order\<close>
  "spec_message fmt nt stocks subscribed =
     (if subscribed = []
      then ''Market '' @ type_name nt @ '' update: No stocks selected for notifications. Dial USSD to select.''
      else join ''\<newline>'' ((''Market '' @ type_capitalize nt @ '' Update:'') # map (spec_line fmt stocks) subscribed))"

definition row_ok :: "subscriber \<Rightarrow> bool" where
  \<comment> \<open>what the service writes into a row: names without repetition, flags 0 or 1\<close>
  "row_ok r = (distinct (subscribed_stocks r)
     \<and> (market_open_notify r = 0 \<or> market_open_notify r = 1)
     \<and> (market_close_notify r = 0 \<or> market_close_notify r = 1))"

definition store_ok :: "subscriber list \<Rightarrow> bool" where
  "store_ok rows = (table_ok rows \<and> list_all row_ok rows)"

section \<open>Example data\<close>

text \<open>
  Prices of the examples are amounts in hundredths of a shilling, printed with two
  decimals; a catalog of twelve entries; a phone number; a table without rows and a
  table with one subscriber; three rows for the dispatcher.
\<close>

definition two_decimals :: "nat \<Rightarrow> string" where
  "two_decimals c = str_nat (c div 100) @ ''.'' @ str_nat (c mod 100 div 10) @ str_nat (c mod 10)"

definition catalog12 :: "nat stock list" where
  "catalog12 =
     [\<lparr>name = ''Safaricom'', price = 1550\<rparr>, \<lparr>name = ''KCB'', price = 4000\<rparr>,
      \<lparr>name = ''Equity'', price = 4525\<rparr>, \<lparr>name = ''EABL'', price = 17500\<rparr>,
      \<lparr>name = ''Absa'', price = 1405\<rparr>, \<lparr>name = ''NCBA'', price = 4310\<rparr>,
      \<lparr>name = ''Stanbic'', price = 12075\<rparr>, \<lparr>name = ''Bamburi'', price = 5500\<rparr>,
      \<lparr>name = ''Britam'', price = 580\<rparr>, \<lparr>name = ''KenGen'', price = 365\<rparr>,
      \<lparr>name = ''Jubilee'', price = 17000\<rparr>, \<lparr>name = ''Total'', price = 2000\<rparr>]"

definition example_phone :: string where
  "example_phone = ''254700000000''"

definition fresh_state :: "nat state" where
  "fresh_state = \<lparr>db = [], CURRENT_STOCKS_DATA = catalog12, stocks_json_file = catalog12\<rparr>"

definition subscribed_state :: "nat state" where
  "subscribed_state =
     \<lparr>db = [\<lparr>phone_number = example_phone, subscribed_stocks = [''Safaricom''],
              market_open_notify = 0, market_close_notify = 0\<rparr>],
      CURRENT_STOCKS_DATA = catalog12, stocks_json_file = catalog12\<rparr>"

definition example_rows :: "subscriber list" where
  "example_rows =
     [\<lparr>phone_number = ''254700000000'', subscribed_stocks = [''safaricom'', ''Unlisted''],
       market_open_notify = 1, market_close_notify = 0\<rparr>,
      \<lparr>phone_number = ''254711111111'', subscribed_stocks = [''KCB''],
       market_open_notify = 0, market_close_notify = 1\<rparr>,
      \<lparr>phone_number = ''254722222222'', subscribed_stocks = [],
       market_open_notify = 1, market_close_notify = 1\<rparr>]"

section \<open>Evaluation on concrete requests\<close>

lemmas eval_defs = ussd_callback_def startswith_def handle_stock_selection_def handle_view_stock_details_def
  handle_manage_subscribed_stocks_def handle_notification_preference_def display_stocks_menu_def
  load_stocks_data_def numbered_def main_menu_response_def selection_done_def subscriptions_menu_def
  current_subs_tail_def prefs_lines_def on_off_def invalid_input_response_def unsubscribed_response_def
  py_int_def strip_int_def int_space_def ascii_digit_def digit_value_def int_body_value_def
  py_isdigit_def py_isdigit_char_def py_lower_def py_lower_char_def py_getitem_def py_pop_def py_position_def
  get_subscriber_def add_subscriber_def remove_subscriber_def update_subscribed_stocks_def
  update_notification_preference_def
  fresh_state_def subscribed_state_def catalog12_def example_phone_def two_decimals_def
  str_nat.simps digit_char_def char_of_eq_iff Let_def

section \<open>Paths and numerals\<close>

lemma split_star_ne: "split_star s \<noteq> []"
  by (cases s) auto

lemma split_star_append: "split_star (a @ CHR ''*'' # b) = split_star a @ split_star b"
  by (induction a) (auto simp: split_star_ne)

lemma split_star_nostar: "CHR ''*'' \<notin> set s \<Longrightarrow> split_star s = [s]"
  by (induction s) auto

lemma split_add_path: "CHR ''*'' \<notin> set n \<Longrightarrow> split_star (''3*1*add*'' @ n) = [''3'', ''1'', ''add'', n]"
  using split_star_append [of "''3*1*add''" n] by (simp add: split_star_nostar)

lemma split_subscribe_path: "CHR ''*'' \<notin> set n \<Longrightarrow> split_star (''1*'' @ n) = [''1'', n]"
  using split_star_append [of "''1''" n] by (simp add: split_star_nostar)


lemma split_remove_path: "CHR ''*'' \<notin> set k \<Longrightarrow> split_star (''3*1*'' @ k) = [''3'', ''1'', k]"
  using split_star_append [of "''3*1''" k] by (simp add: split_star_nostar)

lemma last_subscribe_path:
  assumes "CHR ''*'' \<notin> set n"
  shows "last (split_star (''1*'' @ n)) = n"
  unfolding split_subscribe_path [OF assms] by simp


lemma startswithD: "startswith text p \<Longrightarrow> \<exists>rest. text = p @ rest"
  unfolding startswith_def by (metis append_take_drop_id)

lemma py_int_error: "py_int x = Inl e \<Longrightarrow> e = ValueError"
  by (auto simp: py_int_def Let_def split: if_splits)

lemma py_int_zero: "py_int ''0'' = Inr 0"
  by (simp add: eval_defs)

lemma digits_not_back:
  assumes "py_int n = Inr v" and "1 \<le> v"
  shows "n \<noteq> ''0''"
  using assms py_int_zero by auto

lemma py_position_in_range: "0 \<le> i \<Longrightarrow> i < int n \<Longrightarrow> py_position n i = Some (nat i)"
  by (simp add: py_position_def)

lemma py_isdigit_no_star: "py_isdigit n \<Longrightarrow> CHR ''*'' \<notin> set n"
  by (auto simp: py_isdigit_def py_isdigit_char_def list_all_iff)

lemma py_isdigit_lower: "py_isdigit n \<Longrightarrow> py_lower n \<noteq> ''add''"
  by (cases n) (auto simp: py_isdigit_def py_isdigit_char_def py_lower_def py_lower_char_def Let_def)

lemma distinct_count_one: "distinct xs \<Longrightarrow> x \<in> set xs \<Longrightarrow> count_list xs x = 1"
  by (induction xs) (auto simp: count_list_0_iff)

lemma distinct_pop: "distinct xs \<Longrightarrow> distinct (take k xs @ drop (Suc k) xs)"
  by (simp add: set_take_disj_set_drop_if_distinct)

section \<open>The subscriber table\<close>

lemma get_subscriber_None: "get_subscriber p rows = None \<longleftrightarrow> p \<notin> set (map phone_number rows)"
  by (auto simp: get_subscriber_def find_None_iff)

lemma get_subscriber_SomeD: "get_subscriber p rows = Some r \<Longrightarrow> phone_number r = p \<and> r \<in> set rows"
  by (auto simp: get_subscriber_def find_Some_iff)

lemma get_remove_subscriber: "get_subscriber p (remove_subscriber p rows) = None"
  by (auto simp: get_subscriber_None remove_subscriber_def)

lemma remove_subscriber_idem: "remove_subscriber p (remove_subscriber p rows) = remove_subscriber p rows"
  by (simp add: remove_subscriber_def)

lemma not_in_keys_filter: "p \<notin> set (map phone_number rows) \<Longrightarrow> filter (\<lambda>r. phone_number r = p) rows = []"
  by (induction rows) auto

lemma table_ok_count:
  "table_ok rows \<Longrightarrow> get_subscriber p rows = Some r \<Longrightarrow> filter (\<lambda>r. phone_number r = p) rows = [r]"
proof (induction rows)
  case Nil
  then show ?case by (simp add: get_subscriber_def)
next
  case (Cons a rows)
  show ?case
  proof (cases "phone_number a = p")
    case True
    with Cons.prems have "a = r" and "p \<notin> set (map phone_number rows)"
      by (auto simp: get_subscriber_def table_ok_def)
    with True show ?thesis by (simp add: not_in_keys_filter)
  next
    case False
    with Cons show ?thesis by (simp add: get_subscriber_def table_ok_def)
  qed
qed

lemma get_subscriber_added:
  "p \<notin> set (map phone_number rows) \<Longrightarrow> get_subscriber p (rows @ [r\<lparr>phone_number := p\<rparr>]) = Some (r\<lparr>phone_number := p\<rparr>)"
  by (induction rows) (auto simp: get_subscriber_def)

lemma table_ok_added:
  "table_ok rows \<Longrightarrow> p \<notin> set (map phone_number rows) \<Longrightarrow> phone_number r = p \<Longrightarrow> table_ok (rows @ [r])"
  by (simp add: table_ok_def)

lemma get_subscriber_update_pref:
  "get_subscriber p (update_notification_preference p pt v rows) =
     map_option (\<lambda>r. case pt of Market_open_notify \<Rightarrow> r\<lparr>market_open_notify := v\<rparr>
                               | Market_close_notify \<Rightarrow> r\<lparr>market_close_notify := v\<rparr>)
                (get_subscriber p rows)"
  by (induction rows) (auto simp: get_subscriber_def update_notification_preference_def split: preference_type.splits)

lemma update_pref_twice:
  "update_notification_preference p pt v (update_notification_preference p pt w rows) =
   update_notification_preference p pt v rows"
  by (induction rows) (auto simp: update_notification_preference_def split: preference_type.splits)

lemma update_open_map:
  "update_notification_preference p Market_open_notify v rows =
     map (\<lambda>r. if phone_number r = p then r\<lparr>market_open_notify := v\<rparr> else r) rows"
  by (induction rows) (auto simp: update_notification_preference_def)

lemma update_open_same:
  "table_ok rows \<Longrightarrow> get_subscriber p rows = Some r \<Longrightarrow>
   update_notification_preference p Market_open_notify (market_open_notify r) rows = rows"
proof (induction rows)
  case Nil
  then show ?case by (simp add: update_open_map)
next
  case (Cons a rows)
  show ?case
  proof (cases "phone_number a = p")
    case True
    with Cons.prems have "a = r" and "p \<notin> set (map phone_number rows)"
      by (auto simp: get_subscriber_def table_ok_def)
    then have "map (\<lambda>x. if phone_number x = p then x\<lparr>market_open_notify := market_open_notify r\<rparr> else x) rows = rows"
      by (induction rows) auto
    with True \<open>a = r\<close> show ?thesis by (simp add: update_open_map)
  next
    case False
    with Cons show ?thesis
      by (simp add: get_subscriber_def table_ok_def update_open_map)
  qed
qed

lemma get_subscriber_update_stocks:
  "get_subscriber p (update_subscribed_stocks p xs rows) =
     map_option (\<lambda>r. r\<lparr>subscribed_stocks := xs\<rparr>) (get_subscriber p rows)"
  by (induction rows) (auto simp: get_subscriber_def update_subscribed_stocks_def)

lemma keys_update_stocks: "map phone_number (update_subscribed_stocks p xs rows) = map phone_number rows"
  by (induction rows) (simp_all add: update_subscribed_stocks_def)

lemma keys_update_pref: "map phone_number (update_notification_preference p pt v rows) = map phone_number rows"
  by (induction rows) (simp_all add: update_notification_preference_def split: preference_type.splits)

lemma store_ok_empty: "store_ok []"
  by (simp add: store_ok_def table_ok_def)

lemma store_ok_row: "store_ok rows \<Longrightarrow> get_subscriber p rows = Some r \<Longrightarrow> row_ok r"
  by (auto simp: store_ok_def list_all_iff dest: get_subscriber_SomeD)

lemma store_ok_update_stocks:
  "store_ok rows \<Longrightarrow> distinct xs \<Longrightarrow> store_ok (update_subscribed_stocks p xs rows)"
  unfolding store_ok_def table_ok_def keys_update_stocks
  by (auto simp: update_subscribed_stocks_def list_all_iff row_ok_def)

lemma store_ok_update_pref:
  "store_ok rows \<Longrightarrow> v = 0 \<or> v = 1 \<Longrightarrow> store_ok (update_notification_preference p pt v rows)"
  unfolding store_ok_def table_ok_def keys_update_pref
  by (auto simp: update_notification_preference_def list_all_iff row_ok_def split: preference_type.splits)

lemma store_ok_remove: "store_ok rows \<Longrightarrow> store_ok (remove_subscriber p rows)"
  by (auto simp: store_ok_def table_ok_def remove_subscriber_def list_all_iff distinct_map_filter)

lemma store_ok_add: "store_ok rows \<Longrightarrow> store_ok (snd (add_subscriber p rows))"
  by (auto simp: store_ok_def table_ok_def add_subscriber_def list_all_iff row_ok_def)

section \<open>The handlers, branch by branch\<close>

lemma display_stocks_menu_db: "db (snd (display_stocks_menu p c s)) = db s"
  by (simp add: display_stocks_menu_def load_stocks_data_def Let_def)

lemma hss_back:
  "last (split_star text) = ''0'' \<Longrightarrow> handle_stock_selection phone text s = Inr (main_menu_response, s)"
  by (simp add: handle_stock_selection_def Let_def)

lemma hss_not_number:
  assumes "last (split_star text) \<noteq> ''0''" and "py_int (last (split_star text)) = Inl e"
  shows "handle_stock_selection phone text s =
           Inr (''CON Invalid input. Please enter a number.\<newline>'' @ fst (display_stocks_menu phone ''1'' s),
                snd (display_stocks_menu phone ''1'' s))"
proof -
  have "e = ValueError" using assms(2) by (rule py_int_error)
  with assms show ?thesis
    by (simp add: handle_stock_selection_def Let_def split_beta display_stocks_menu_def)
qed

lemma hss_out_of_range:
  assumes "last (split_star text) \<noteq> ''0''" and "py_int (last (split_star text)) = Inr v"
    and "v < 1 \<or> int (length (CURRENT_STOCKS_DATA s)) < v"
  shows "handle_stock_selection phone text s =
           Inr (''CON Invalid stock number. Please try again.\<newline>'' @ fst (display_stocks_menu phone ''1'' s),
                snd (display_stocks_menu phone ''1'' s))"
  using assms
  by (auto simp: handle_stock_selection_def Let_def split_beta display_stocks_menu_def)

lemma hss_no_subscriber:
  assumes "last (split_star text) \<noteq> ''0''" and "py_int (last (split_star text)) = Inr v"
    and "1 \<le> v" and "v \<le> int (length (CURRENT_STOCKS_DATA s))"
    and "get_subscriber phone (db s) = None"
  shows "handle_stock_selection phone text s =
           Inr (''END Error: Subscriber not found. Please re-subscribe.'', s)"
  using assms
  by (simp add: handle_stock_selection_def Let_def py_getitem_def py_position_in_range)

lemma hss_new:
  assumes "last (split_star text) \<noteq> ''0''" and "py_int (last (split_star text)) = Inr v"
    and "1 \<le> v" and "v \<le> int (length (CURRENT_STOCKS_DATA s))"
    and "get_subscriber phone (db s) = Some sub"
    and "name (CURRENT_STOCKS_DATA s ! nat (v - 1)) \<notin> set (subscribed_stocks sub)"
  shows "handle_stock_selection phone text s =
           Inr (''CON Successfully subscribed to '' @ name (CURRENT_STOCKS_DATA s ! nat (v - 1)) @ ''.\<newline>'' @
                ''1. Subscribe to another stock\<newline>0. Back to Main Menu'',
                s\<lparr>db := update_subscribed_stocks phone
                            (subscribed_stocks sub @ [name (CURRENT_STOCKS_DATA s ! nat (v - 1))]) (db s)\<rparr>)"
  using assms
  by (simp add: handle_stock_selection_def Let_def py_getitem_def py_position_in_range selection_done_def)

lemma hss_already:
  assumes "last (split_star text) \<noteq> ''0''" and "py_int (last (split_star text)) = Inr v"
    and "1 \<le> v" and "v \<le> int (length (CURRENT_STOCKS_DATA s))"
    and "get_subscriber phone (db s) = Some sub"
    and "name (CURRENT_STOCKS_DATA s ! nat (v - 1)) \<in> set (subscribed_stocks sub)"
  shows "handle_stock_selection phone text s =
           Inr (''CON You are already subscribed to '' @ name (CURRENT_STOCKS_DATA s ! nat (v - 1)) @ ''.\<newline>'' @
                ''1. Subscribe to another stock\<newline>0. Back to Main Menu'', s)"
  using assms
  by (simp add: handle_stock_selection_def Let_def py_getitem_def py_position_in_range selection_done_def)

lemma hss_total: "\<exists>r s'. handle_stock_selection phone text s = Inr (r, s')"
proof (cases "last (split_star text) = ''0''")
  case True
  then show ?thesis by (simp add: hss_back)
next
  case nz: False
  show ?thesis
  proof (cases "py_int (last (split_star text))")
    case (Inl e)
    with nz show ?thesis by (simp add: hss_not_number)
  next
    case (Inr v)
    show ?thesis
    proof (cases "1 \<le> v \<and> v \<le> int (length (CURRENT_STOCKS_DATA s))")
      case False
      then have "v < 1 \<or> int (length (CURRENT_STOCKS_DATA s)) < v" by auto
      from hss_out_of_range [OF nz Inr this] show ?thesis by simp
    next
      case True
      show ?thesis
      proof (cases "get_subscriber phone (db s)")
        case None
        with nz Inr True show ?thesis by (simp add: hss_no_subscriber)
      next
        case (Some sub)
        with nz Inr True show ?thesis
          by (cases "name (CURRENT_STOCKS_DATA s ! nat (v - 1)) \<in> set (subscribed_stocks sub)")
             (simp_all add: hss_new hss_already)
      qed
    qed
  qed
qed

lemma hvd_back:
  "last (split_star text) = ''0'' \<Longrightarrow> handle_view_stock_details fmt phone text s = Inr (main_menu_response, s)"
  by (simp add: handle_view_stock_details_def Let_def)

lemma hvd_not_number:
  assumes "last (split_star text) \<noteq> ''0''" and "py_int (last (split_star text)) = Inl e"
  shows "handle_view_stock_details fmt phone text s =
           Inr (''CON Invalid input. Please enter a number.\<newline>'' @ fst (display_stocks_menu phone ''2'' s),
                snd (display_stocks_menu phone ''2'' s))"
proof -
  have "e = ValueError" using assms(2) by (rule py_int_error)
  with assms show ?thesis
    by (simp add: handle_view_stock_details_def Let_def split_beta)
qed

lemma hvd_out_of_range:
  assumes "last (split_star text) \<noteq> ''0''" and "py_int (last (split_star text)) = Inr v"
    and "v < 1 \<or> int (length (CURRENT_STOCKS_DATA s)) < v"
  shows "handle_view_stock_details fmt phone text s =
           Inr (''CON Invalid stock number. Please try again.\<newline>'' @ fst (display_stocks_menu phone ''2'' s),
                snd (display_stocks_menu phone ''2'' s))"
  using assms
  by (auto simp: handle_view_stock_details_def Let_def split_beta)

lemma hvd_details:
  assumes "last (split_star text) \<noteq> ''0''" and "py_int (last (split_star text)) = Inr v"
    and "1 \<le> v" and "v \<le> int (length (CURRENT_STOCKS_DATA s))"
  shows "handle_view_stock_details fmt phone text s =
           Inr (''END '' @ name (CURRENT_STOCKS_DATA s ! nat (v - 1)) @ '': Ksh '' @
                fmt (price (CURRENT_STOCKS_DATA s ! nat (v - 1))) @ ''\<newline>Data in real-time.'', s)"
  using assms
  by (simp add: handle_view_stock_details_def Let_def py_getitem_def py_position_in_range)

lemma hvd_total: "\<exists>r s'. handle_view_stock_details fmt phone text s = Inr (r, s')"
proof (cases "last (split_star text) = ''0''")
  case True
  then show ?thesis by (simp add: hvd_back)
next
  case nz: False
  show ?thesis
  proof (cases "py_int (last (split_star text))")
    case (Inl e)
    with nz show ?thesis by (simp add: hvd_not_number)
  next
    case (Inr v)
    show ?thesis
    proof (cases "1 \<le> v \<and> v \<le> int (length (CURRENT_STOCKS_DATA s))")
      case False
      then have "v < 1 \<or> int (length (CURRENT_STOCKS_DATA s)) < v" by auto
      from hvd_out_of_range [OF nz Inr this] show ?thesis by simp
    next
      case True
      with nz Inr show ?thesis by (simp add: hvd_details)
    qed
  qed
qed

lemma hms_no_subscriber:
  "get_subscriber phone (db s) = None \<Longrightarrow>
   handle_manage_subscribed_stocks phone text s =
     Inr (''END Error: Subscriber not found. Please re-subscribe.'', s)"
  by (simp add: handle_manage_subscribed_stocks_def Let_def)

lemma hms_back:
  assumes "get_subscriber phone (db s) = Some sub" and "last (split_star text) = ''0''"
  shows "handle_manage_subscribed_stocks phone text s = Inr (main_menu_response, s)"
  using assms by (simp add: handle_manage_subscribed_stocks_def Let_def)

lemma hms_add_menu:
  assumes "get_subscriber phone (db s) = Some sub" and "last (split_star text) \<noteq> ''0''"
    and "py_lower (last (split_star text)) = ''add''"
  shows "handle_manage_subscribed_stocks phone text s =
           Inr (''CON Select stocks to add:\<newline>'' @ fst (display_stocks_menu phone ''3*1*add'' s),
                snd (display_stocks_menu phone ''3*1*add'' s))"
  using assms by (simp add: handle_manage_subscribed_stocks_def Let_def split_beta)

lemma hms_delegate:
  assumes "get_subscriber phone (db s) = Some sub" and "last (split_star text) \<noteq> ''0''"
    and "py_lower (last (split_star text)) \<noteq> ''add''"
    and "3 \<le> length (split_star text)" and "py_lower (split_star text ! 2) = ''add''"
    and "py_isdigit (last (split_star text))"
  shows "handle_manage_subscribed_stocks phone text s =
           handle_stock_selection phone (''1*'' @ last (split_star text)) s"
  using assms by (simp add: handle_manage_subscribed_stocks_def Let_def)

lemma hms_not_number:
  assumes "get_subscriber phone (db s) = Some sub" and "last (split_star text) \<noteq> ''0''"
    and "py_lower (last (split_star text)) \<noteq> ''add''"
    and "\<not> (3 \<le> length (split_star text) \<and> py_lower (split_star text ! 2) = ''add''
            \<and> py_isdigit (last (split_star text)))"
    and "py_int (last (split_star text)) = Inl e"
  shows "handle_manage_subscribed_stocks phone text s =
           Inr (''CON Invalid input. Please enter a number or 'add'.\<newline>'' @
                current_subs_tail (subscribed_stocks sub), s)"
proof -
  have "e = ValueError" using assms(5) by (rule py_int_error)
  with assms show ?thesis
    by (auto simp: handle_manage_subscribed_stocks_def Let_def)
qed

lemma hms_out_of_range:
  assumes "get_subscriber phone (db s) = Some sub" and "last (split_star text) \<noteq> ''0''"
    and "py_lower (last (split_star text)) \<noteq> ''add''"
    and "\<not> (3 \<le> length (split_star text) \<and> py_lower (split_star text ! 2) = ''add''
            \<and> py_isdigit (last (split_star text)))"
    and "py_int (last (split_star text)) = Inr v"
    and "v < 1 \<or> int (length (subscribed_stocks sub)) < v"
  shows "handle_manage_subscribed_stocks phone text s =
           Inr (''CON Invalid stock number to remove. Please try again.\<newline>'' @
                current_subs_tail (subscribed_stocks sub), s)"
  using assms by (auto simp: handle_manage_subscribed_stocks_def Let_def)

lemma hms_remove:
  assumes "get_subscriber phone (db s) = Some sub" and "last (split_star text) \<noteq> ''0''"
    and "py_lower (last (split_star text)) \<noteq> ''add''"
    and "\<not> (3 \<le> length (split_star text) \<and> py_lower (split_star text ! 2) = ''add''
            \<and> py_isdigit (last (split_star text)))"
    and "py_int (last (split_star text)) = Inr v"
    and "1 \<le> v" and "v \<le> int (length (subscribed_stocks sub))"
  shows "handle_manage_subscribed_stocks phone text s =
           Inr (''CON Removed '' @ subscribed_stocks sub ! nat (v - 1) @ '' from your subscriptions.\<newline>'' @
                ''1. Manage Subscribed Stocks\<newline>2. Set Notification Preferences\<newline>0. Back to Main Menu'',
                s\<lparr>db := update_subscribed_stocks phone
                        (take (nat (v - 1)) (subscribed_stocks sub) @ drop (Suc (nat (v - 1))) (subscribed_stocks sub))
                        (db s)\<rparr>)"
  using assms
  by (auto simp: handle_manage_subscribed_stocks_def Let_def py_pop_def py_position_in_range subscriptions_menu_def)

lemma hms_total: "\<exists>r s'. handle_manage_subscribed_stocks phone text s = Inr (r, s')"
proof (cases "get_subscriber phone (db s)")
  case None
  then show ?thesis by (simp add: hms_no_subscriber)
next
  case (Some sub)
  show ?thesis
  proof (cases "last (split_star text) = ''0''")
    case True
    with Some show ?thesis by (simp add: hms_back)
  next
    case nz: False
    show ?thesis
    proof (cases "py_lower (last (split_star text)) = ''add''")
      case True
      with Some nz show ?thesis by (simp add: hms_add_menu)
    next
      case na: False
      show ?thesis
      proof (cases "3 \<le> length (split_star text) \<and> py_lower (split_star text ! 2) = ''add''
            \<and> py_isdigit (last (split_star text))")
        case True
        with Some nz na show ?thesis by (simp add: hms_delegate hss_total)
      next
        case nd: False
        show ?thesis
        proof (cases "py_int (last (split_star text))")
          case (Inl e)
          from hms_not_number [OF Some nz na nd Inl] show ?thesis by simp
        next
          case (Inr v)
          show ?thesis
          proof (cases "1 \<le> v \<and> v \<le> int (length (subscribed_stocks sub))")
            case True
            then have "1 \<le> v" "v \<le> int (length (subscribed_stocks sub))" by auto
            from hms_remove [OF Some nz na nd Inr this] show ?thesis by simp
          next
            case False
            then have "v < 1 \<or> int (length (subscribed_stocks sub)) < v" by auto
            from hms_out_of_range [OF Some nz na nd Inr this] show ?thesis by simp
          qed
        qed
      qed
    qed
  qed
qed

lemma hnp_no_subscriber:
  "get_subscriber phone (db s) = None \<Longrightarrow>
   handle_notification_preference phone text s =
     Inr (''END Error: Subscriber not found. Please re-subscribe.'', s)"
  by (simp add: handle_notification_preference_def Let_def)

lemma hnp_toggle_open:
  assumes "get_subscriber phone (db s) = Some sub" and "last (split_star text) = ''1''"
  shows "handle_notification_preference phone text s =
     Inr (''CON Set Notification Preferences:\<newline>'' @
          prefs_lines (if market_open_notify sub = 0 then 1 else 0) (market_close_notify sub),
          s\<lparr>db := update_notification_preference phone Market_open_notify
                      (if market_open_notify sub = 0 then 1 else 0) (db s)\<rparr>)"
  using assms by (simp add: handle_notification_preference_def Let_def)

lemma hnp_toggle_close:
  assumes "get_subscriber phone (db s) = Some sub" and "last (split_star text) = ''2''"
  shows "handle_notification_preference phone text s =
     Inr (''CON Set Notification Preferences:\<newline>'' @
          prefs_lines (market_open_notify sub) (if market_close_notify sub = 0 then 1 else 0),
          s\<lparr>db := update_notification_preference phone Market_close_notify
                      (if market_close_notify sub = 0 then 1 else 0) (db s)\<rparr>)"
  using assms by (simp add: handle_notification_preference_def Let_def)

lemma hnp_back:
  assumes "get_subscriber phone (db s) = Some sub" and "last (split_star text) = ''0''"
  shows "handle_notification_preference phone text s = Inr (main_menu_response, s)"
  using assms by (simp add: handle_notification_preference_def Let_def)

lemma hnp_invalid:
  assumes "get_subscriber phone (db s) = Some sub"
    and "last (split_star text) \<noteq> ''1''" and "last (split_star text) \<noteq> ''2''"
    and "last (split_star text) \<noteq> ''0''"
  shows "handle_notification_preference phone text s =
     Inr (''CON Invalid option. Please select 1 or 2.\<newline>'' @
          prefs_lines (market_open_notify sub) (market_close_notify sub), s)"
  using assms by (simp add: handle_notification_preference_def Let_def)

lemma hnp_total: "\<exists>r s'. handle_notification_preference phone text s = Inr (r, s')"
  by (simp add: handle_notification_preference_def Let_def split: option.splits)

lemma hss_bad_selection:
  assumes "last (split_star text) \<noteq> ''0''"
    and "bad_selection (last (split_star text)) (length (CURRENT_STOCKS_DATA s))"
  shows "handle_stock_selection phone text s =
           Inr (selection_error_line (last (split_star text)) @ fst (display_stocks_menu phone ''1'' s),
                snd (display_stocks_menu phone ''1'' s))"
proof (cases "py_int (last (split_star text))")
  case (Inl e)
  with hss_not_number [OF assms(1) Inl] show ?thesis
    by (simp add: selection_error_line_def)
next
  case (Inr v)
  with assms(2) have "v < 1 \<or> int (length (CURRENT_STOCKS_DATA s)) < v"
    by (simp add: bad_selection_def)
  with hss_out_of_range [OF assms(1) Inr] Inr show ?thesis
    by (simp add: selection_error_line_def)
qed

lemma hvd_bad_selection:
  assumes "last (split_star text) \<noteq> ''0''"
    and "bad_selection (last (split_star text)) (length (CURRENT_STOCKS_DATA s))"
  shows "handle_view_stock_details fmt phone text s =
           Inr (selection_error_line (last (split_star text)) @ fst (display_stocks_menu phone ''2'' s),
                snd (display_stocks_menu phone ''2'' s))"
proof (cases "py_int (last (split_star text))")
  case (Inl e)
  with hvd_not_number [OF assms(1) Inl] show ?thesis
    by (simp add: selection_error_line_def)
next
  case (Inr v)
  with assms(2) have "v < 1 \<or> int (length (CURRENT_STOCKS_DATA s)) < v"
    by (simp add: bad_selection_def)
  with hvd_out_of_range [OF assms(1) Inr] Inr show ?thesis
    by (simp add: selection_error_line_def)
qed

lemma hms_bad_removal:
  assumes "get_subscriber phone (db s) = Some sub" and "last (split_star text) \<noteq> ''0''"
    and "py_lower (last (split_star text)) \<noteq> ''add''"
    and "\<not> (3 \<le> length (split_star text) \<and> py_lower (split_star text ! 2) = ''add''
            \<and> py_isdigit (last (split_star text)))"
    and "bad_selection (last (split_star text)) (length (subscribed_stocks sub))"
  shows "handle_manage_subscribed_stocks phone text s =
           Inr (removal_error_line (last (split_star text)) @ current_subs_tail (subscribed_stocks sub), s)"
proof (cases "py_int (last (split_star text))")
  case (Inl e)
  with hms_not_number [OF assms(1-4) Inl] show ?thesis
    by (simp add: removal_error_line_def)
next
  case (Inr v)
  with assms(5) have "v < 1 \<or> int (length (subscribed_stocks sub)) < v"
    by (simp add: bad_selection_def)
  with hms_out_of_range [OF assms(1-4) Inr] Inr show ?thesis
    by (simp add: removal_error_line_def)
qed

lemma hms_bad_addition:
  assumes "get_subscriber phone (db s) = Some sub" and "last (split_star text) \<noteq> ''0''"
    and "py_lower (last (split_star text)) \<noteq> ''add''"
    and "3 \<le> length (split_star text) \<and> py_lower (split_star text ! 2) = ''add''
            \<and> py_isdigit (last (split_star text))"
    and "bad_selection (last (split_star text)) (length (CURRENT_STOCKS_DATA s))"
  shows "handle_manage_subscribed_stocks phone text s =
           Inr (selection_error_line (last (split_star text)) @ fst (display_stocks_menu phone ''1'' s),
                snd (display_stocks_menu phone ''1'' s))"
proof -
  let ?seg = "last (split_star text)"
  from assms(4) have d: "py_isdigit ?seg" by simp
  have l: "last (split_star (''1*'' @ ?seg)) = ?seg"
    by (rule last_subscribe_path [OF py_isdigit_no_star [OF d]])
  have "handle_manage_subscribed_stocks phone text s = handle_stock_selection phone (''1*'' @ ?seg) s"
    using assms(4) by (intro hms_delegate [OF assms(1-3)]) simp_all
  also have "\<dots> = Inr (selection_error_line ?seg @ fst (display_stocks_menu phone ''1'' s),
                snd (display_stocks_menu phone ''1'' s))"
    using hss_bad_selection [of "''1*'' @ ?seg", unfolded l, OF assms(2) assms(5)] .
  finally show ?thesis .
qed

lemma bad_toggle:
  assumes "seg \<noteq> ''0''" and "bad_selection seg 2"
  shows "seg \<noteq> ''1'' \<and> seg \<noteq> ''2''"
proof -
  have "py_int ''1'' = Inr 1" and "py_int ''2'' = Inr 2"
    by (simp_all add: eval_defs)
  with assms(2) show ?thesis
    by (auto simp: bad_selection_def)
qed

section \<open>The dispatch of the callback\<close>

lemma ussd_unsubscribe:
  "ussd_callback fmt phone ''4'' s = Inr (unsubscribed_response, s\<lparr>db := remove_subscriber phone (db s)\<rparr>)"
  by (simp add: ussd_callback_def startswith_def)

lemma ussd_subscribe_present:
  "get_subscriber phone (db s) = Some sub \<Longrightarrow>
   ussd_callback fmt phone ''1'' s =
     Inr (''END You are already subscribed! Choose '3' to manage your subscriptions.'', s)"
  by (simp add: ussd_callback_def)

lemma ussd_subscribe_absent:
  assumes "get_subscriber phone (db s) = None"
  shows "ussd_callback fmt phone ''1'' s =
     Inr (''CON You have successfully subscribed!\<newline>Now, let's select stocks to track.\<newline>'' @
          fst (display_stocks_menu phone ''1''
                 (s\<lparr>db := db s @ [\<lparr>phone_number = phone, subscribed_stocks = [],
                                     market_open_notify = 0, market_close_notify = 0\<rparr>]\<rparr>)),
          snd (display_stocks_menu phone ''1''
                 (s\<lparr>db := db s @ [\<lparr>phone_number = phone, subscribed_stocks = [],
                                     market_open_notify = 0, market_close_notify = 0\<rparr>]\<rparr>)))"
proof -
  from assms have "phone \<notin> set (map phone_number (db s))"
    by (simp add: get_subscriber_None)
  with assms show ?thesis
    by (simp add: ussd_callback_def add_subscriber_def split_beta Let_def)
qed

lemma ussd_toggle:
  "ussd_callback fmt phone ''3*2*1'' s = handle_notification_preference phone ''3*2*1'' s"
  by (simp add: ussd_callback_def startswith_def)

lemma ussd_subscribe_path: "ussd_callback fmt phone (''1*'' @ n) s = handle_stock_selection phone (''1*'' @ n) s"
  by (simp add: ussd_callback_def startswith_def)

lemma ussd_add_path:
  "ussd_callback fmt phone (''3*1*add*'' @ n) s = handle_manage_subscribed_stocks phone (''3*1*add*'' @ n) s"
  by (simp add: ussd_callback_def startswith_def)


lemma ussd_remove_path:
  "ussd_callback fmt phone (''3*1*'' @ k) s = handle_manage_subscribed_stocks phone (''3*1*'' @ k) s"
  by (simp add: ussd_callback_def startswith_def)

lemma ussd_prefix_subscribe:
  "startswith text ''1*'' \<Longrightarrow> ussd_callback fmt phone text s = handle_stock_selection phone text s"
proof -
  assume "startswith text ''1*''"
  then obtain rest where "text = ''1*'' @ rest" using startswithD by blast
  then show ?thesis by (simp add: ussd_callback_def startswith_def)
qed

lemma ussd_prefix_view:
  "startswith text ''2*'' \<Longrightarrow> ussd_callback fmt phone text s = handle_view_stock_details fmt phone text s"
proof -
  assume "startswith text ''2*''"
  then obtain rest where "text = ''2*'' @ rest" using startswithD by blast
  then show ?thesis by (simp add: ussd_callback_def startswith_def)
qed

lemma ussd_prefix_manage:
  "startswith text ''3*1*'' \<Longrightarrow> ussd_callback fmt phone text s = handle_manage_subscribed_stocks phone text s"
proof -
  assume "startswith text ''3*1*''"
  then obtain rest where "text = ''3*1*'' @ rest" using startswithD by blast
  then show ?thesis by (simp add: ussd_callback_def startswith_def)
qed

lemma ussd_prefix_prefs:
  "startswith text ''3*2*'' \<Longrightarrow> ussd_callback fmt phone text s = handle_notification_preference phone text s"
proof -
  assume "startswith text ''3*2*''"
  then obtain rest where "text = ''3*2*'' @ rest" using startswithD by blast
  then show ?thesis by (simp add: ussd_callback_def startswith_def)
qed

lemma add_path_delegates:
  assumes "py_isdigit n" and "get_subscriber phone (db s) = Some sub"
  shows "ussd_callback fmt phone (''3*1*add*'' @ n) s = ussd_callback fmt phone (''1*'' @ n) s"
proof -
  have ns: "CHR ''*'' \<notin> set n" using assms(1) by (rule py_isdigit_no_star)
  have parts: "split_star (''3*1*add*'' @ n) = [''3'', ''1'', ''add'', n]"
    using ns by (rule split_add_path)
  have parts1: "split_star (''1*'' @ n) = [''1'', n]"
    using ns by (rule split_subscribe_path)
  show ?thesis
  proof (cases "n = ''0''")
    case True
    have "handle_manage_subscribed_stocks phone (''3*1*add*'' @ n) s = Inr (main_menu_response, s)"
      using True parts by (intro hms_back [OF assms(2)]) simp
    moreover have "handle_stock_selection phone (''1*'' @ n) s = Inr (main_menu_response, s)"
      using True parts1 by (intro hss_back) simp
    ultimately show ?thesis unfolding ussd_subscribe_path ussd_add_path by simp
  next
    case False
    have "handle_manage_subscribed_stocks phone (''3*1*add*'' @ n) s =
            handle_stock_selection phone (''1*'' @ last (split_star (''3*1*add*'' @ n))) s"
      using False assms(1) parts py_isdigit_lower [OF assms(1)]
      by (intro hms_delegate [OF assms(2)]) (simp_all add: py_lower_def py_lower_char_def)
    then show ?thesis unfolding ussd_subscribe_path ussd_add_path parts by simp
  qed
qed

section \<open>What every request preserves\<close>

text \<open>
  The table starts empty and is written by the callback only. Every request keeps the
  phone numbers distinct, the names of each subscription list distinct and the flags in
  \<open>{0, 1}\<close>; the claims below assume no more of a table than this.
\<close>

lemma hss_store_ok:
  assumes "store_ok (db s)" and "handle_stock_selection phone text s = Inr (r, s')"
  shows "store_ok (db s')"
proof (cases "last (split_star text) = ''0''")
  case True
  with assms show ?thesis by (simp add: hss_back)
next
  case nz: False
  show ?thesis
  proof (cases "py_int (last (split_star text))")
    case (Inl e)
    with assms hss_not_number [OF nz Inl, of phone s] show ?thesis
      by (auto simp: display_stocks_menu_db)
  next
    case (Inr v)
    show ?thesis
    proof (cases "1 \<le> v \<and> v \<le> int (length (CURRENT_STOCKS_DATA s))")
      case False
      then have "v < 1 \<or> int (length (CURRENT_STOCKS_DATA s)) < v" by auto
      with assms hss_out_of_range [OF nz Inr, of s phone] show ?thesis
        by (auto simp: display_stocks_menu_db)
    next
      case True
      then have lo: "1 \<le> v" and hi: "v \<le> int (length (CURRENT_STOCKS_DATA s))" by auto
      show ?thesis
      proof (cases "get_subscriber phone (db s)")
        case None
        with assms hss_no_subscriber [OF nz Inr lo hi None] show ?thesis by simp
      next
        case (Some sub)
        have d: "distinct (subscribed_stocks sub)"
          using store_ok_row [OF assms(1) Some] by (simp add: row_ok_def)
        show ?thesis
        proof (cases "name (CURRENT_STOCKS_DATA s ! nat (v - 1)) \<in> set (subscribed_stocks sub)")
          case True
          with assms hss_already [OF nz Inr lo hi Some True] show ?thesis by simp
        next
          case False
          with d have "distinct (subscribed_stocks sub @ [name (CURRENT_STOCKS_DATA s ! nat (v - 1))])"
            by simp
          from store_ok_update_stocks [OF assms(1) this, of phone] assms hss_new [OF nz Inr lo hi Some False]
          show ?thesis by auto
        qed
      qed
    qed
  qed
qed

lemma hvd_db:
  assumes "handle_view_stock_details fmt phone text s = Inr (r, s')"
  shows "db s' = db s"
  using assms
  by (auto simp: handle_view_stock_details_def Let_def split_beta display_stocks_menu_db
           split: if_splits sum.splits py_error.splits)

lemma hms_store_ok:
  assumes "store_ok (db s)" and "handle_manage_subscribed_stocks phone text s = Inr (r, s')"
  shows "store_ok (db s')"
proof (cases "get_subscriber phone (db s)")
  case None
  with assms show ?thesis by (simp add: hms_no_subscriber)
next
  case (Some sub)
  have d: "distinct (subscribed_stocks sub)"
    using store_ok_row [OF assms(1) Some] by (simp add: row_ok_def)
  show ?thesis
  proof (cases "last (split_star text) = ''0''")
    case True
    with assms Some show ?thesis by (simp add: hms_back)
  next
    case nz: False
    show ?thesis
    proof (cases "py_lower (last (split_star text)) = ''add''")
      case True
      with assms hms_add_menu [OF Some nz True] show ?thesis
        by (auto simp: display_stocks_menu_db)
    next
      case na: False
      show ?thesis
      proof (cases "3 \<le> length (split_star text) \<and> py_lower (split_star text ! 2) = ''add''
            \<and> py_isdigit (last (split_star text))")
        case True
        then have "handle_manage_subscribed_stocks phone text s =
            handle_stock_selection phone (''1*'' @ last (split_star text)) s"
          by (intro hms_delegate [OF Some nz na]) simp_all
        with assms show ?thesis by (auto intro: hss_store_ok)
      next
        case nd: False
        show ?thesis
        proof (cases "py_int (last (split_star text))")
          case (Inl e)
          with assms hms_not_number [OF Some nz na nd Inl] show ?thesis by simp
        next
          case (Inr v)
          show ?thesis
          proof (cases "1 \<le> v \<and> v \<le> int (length (subscribed_stocks sub))")
            case False
            then have "v < 1 \<or> int (length (subscribed_stocks sub)) < v" by auto
            with assms hms_out_of_range [OF Some nz na nd Inr] show ?thesis by simp
          next
            case True
            then have lo: "1 \<le> v" and hi: "v \<le> int (length (subscribed_stocks sub))" by auto
            from store_ok_update_stocks [OF assms(1) distinct_pop [OF d], of phone "nat (v - 1)"]
              assms hms_remove [OF Some nz na nd Inr lo hi]
            show ?thesis by auto
          qed
        qed
      qed
    qed
  qed
qed

lemma hnp_store_ok:
  assumes "store_ok (db s)" and "handle_notification_preference phone text s = Inr (r, s')"
  shows "store_ok (db s')"
  using assms
  by (auto simp: handle_notification_preference_def Let_def store_ok_update_pref
           split: option.splits if_splits)

lemma ussd_callback_store_ok:
  assumes "store_ok (db s)" and "ussd_callback fmt phone text s = Inr (r, s')"
  shows "store_ok (db s')"
  using assms
  by (auto simp: ussd_callback_def Let_def split_beta display_stocks_menu_db store_ok_add store_ok_remove
           hvd_db
           split: if_splits option.splits
           dest: hss_store_ok hms_store_ok hnp_store_ok)

section \<open>Totality of the handler\<close>

text \<open>
  Claim C2. For every phone number, every path string and every state the handler
  returns a response: the \<open>ValueError\<close> of \<open>int()\<close> is caught by each handler and
  the guarded list accesses never raise. A path outside the prefix patterns of the menu
  grammar gets the terminal answer \<open>END Invalid input. Please try again.\<close> and leaves
  the state as it is.
\<close>

theorem ussd_callback_total:
  "(\<exists>r s'. ussd_callback fmt phone text s = Inr (r, s'))
   \<and> (\<not> spec_menu_grammar text \<longrightarrow>
        ussd_callback fmt phone text s = Inr (''END Invalid input. Please try again.'', s))"
proof
  show "\<exists>r s'. ussd_callback fmt phone text s = Inr (r, s')"
    unfolding ussd_callback_def
    using hss_total [of phone "text" s] hvd_total [of fmt phone "text" s]
      hms_total [of phone "text" s] hnp_total [of phone "text" s]
    by (simp add: Let_def split_beta split: option.splits)
next
  show "\<not> spec_menu_grammar text \<longrightarrow>
        ussd_callback fmt phone text s = Inr (''END Invalid input. Please try again.'', s)"
    by (simp add: spec_menu_grammar_def ussd_callback_def invalid_input_response_def)
qed

theorem ussd_callback_total_witness:
  "\<not> spec_menu_grammar ''5*1''
   \<and> ussd_callback two_decimals example_phone ''5*1'' fresh_state =
       Inr (''END Invalid input. Please try again.'', fresh_state)"
proof -
  have h: "\<not> spec_menu_grammar ''5*1''"
    by (simp add: spec_menu_grammar_def startswith_def)
  with ussd_callback_total [of two_decimals example_phone "''5*1''" fresh_state]
  show ?thesis by blast
qed

section \<open>Subscribing\<close>

text \<open>
  Claim C5. Path \<open>1\<close> for a phone number without a record appends a record with an
  empty subscription list and answers with a continue response; for a phone number with
  a record it answers with the terminal "already subscribed" message and changes
  nothing. So a second request with path \<open>1\<close> is always answered by that terminal
  message, and the table then holds exactly one record for the phone number.
\<close>

theorem subscribe_once:
  assumes "table_ok (db s)"
  shows "\<exists>r1 s1 r2 s2.
      ussd_callback fmt phone ''1'' s = Inr (r1, s1)
    \<and> ussd_callback fmt phone ''1'' s1 = Inr (r2, s2)
    \<and> (case get_subscriber phone (db s) of
          None \<Rightarrow> startswith r1 ''CON ''
                 \<and> db s1 = db s @ [\<lparr>phone_number = phone, subscribed_stocks = [],
                                     market_open_notify = 0, market_close_notify = 0\<rparr>]
        | Some sub \<Rightarrow> r1 = ''END You are already subscribed! Choose '3' to manage your subscriptions.''
                 \<and> s1 = s)
    \<and> r2 = ''END You are already subscribed! Choose '3' to manage your subscriptions.''
    \<and> s2 = s1
    \<and> length (filter (\<lambda>r. phone_number r = phone) (db s2)) = 1"
proof (cases "get_subscriber phone (db s)")
  case (Some sub)
  have "length (filter (\<lambda>r. phone_number r = phone) (db s)) = 1"
    using table_ok_count [OF assms Some] by simp
  with Some show ?thesis by (simp add: ussd_subscribe_present)
next
  case None
  let ?new = "\<lparr>phone_number = phone, subscribed_stocks = [], market_open_notify = 0, market_close_notify = 0\<rparr>"
  let ?s0 = "s\<lparr>db := db s @ [?new]\<rparr>"
  let ?s1 = "snd (display_stocks_menu phone ''1'' ?s0)"
  from None have absent: "phone \<notin> set (map phone_number (db s))"
    by (simp add: get_subscriber_None)
  have db1: "db ?s1 = db s @ [?new]"
    by (simp add: display_stocks_menu_db)
  have got: "get_subscriber phone (db ?s1) = Some ?new"
    using get_subscriber_added [OF absent, of ?new] by (simp add: db1)
  have ok1: "table_ok (db ?s1)"
    using table_ok_added [OF assms absent, of ?new] by (simp add: db1)
  have cnt: "length (filter (\<lambda>r. phone_number r = phone) (db ?s1)) = 1"
    using table_ok_count [OF ok1 got] by simp
  have first: "ussd_callback fmt phone ''1'' s =
      Inr (''CON You have successfully subscribed!\<newline>Now, let's select stocks to track.\<newline>'' @
           fst (display_stocks_menu phone ''1'' ?s0), ?s1)"
    by (rule ussd_subscribe_absent [OF None])
  have second: "ussd_callback fmt phone ''1'' ?s1 =
      Inr (''END You are already subscribed! Choose '3' to manage your subscriptions.'', ?s1)"
    by (rule ussd_subscribe_present [OF got])
  from first second db1 cnt None show ?thesis
    by (simp add: startswith_def)
qed

theorem subscribe_once_witness:
  "table_ok (db fresh_state)
   \<and> get_subscriber example_phone (db fresh_state) = None
   \<and> (\<exists>r1 s1. ussd_callback two_decimals example_phone ''1'' fresh_state = Inr (r1, s1)
        \<and> startswith r1 ''CON ''
        \<and> db s1 = [\<lparr>phone_number = example_phone, subscribed_stocks = [],
                      market_open_notify = 0, market_close_notify = 0\<rparr>]
        \<and> ussd_callback two_decimals example_phone ''1'' s1 =
            Inr (''END You are already subscribed! Choose '3' to manage your subscriptions.'', s1)
        \<and> length (filter (\<lambda>r. phone_number r = example_phone) (db s1)) = 1)"
proof -
  have h: "table_ok (db fresh_state)"
    by (simp add: table_ok_def fresh_state_def)
  have n: "get_subscriber example_phone (db fresh_state) = None"
    by (simp add: get_subscriber_def fresh_state_def)
  have e: "db fresh_state = []"
    by (simp add: fresh_state_def)
  obtain r1 s1 r2 s2 where
      a: "ussd_callback two_decimals example_phone ''1'' fresh_state = Inr (r1, s1)"
    and b: "ussd_callback two_decimals example_phone ''1'' s1 = Inr (r2, s2)"
    and c: "case get_subscriber example_phone (db fresh_state) of
              None \<Rightarrow> startswith r1 ''CON ''
                \<and> db s1 = db fresh_state @ [\<lparr>phone_number = example_phone, subscribed_stocks = [],
                      market_open_notify = 0, market_close_notify = 0\<rparr>]
            | Some sub \<Rightarrow> r1 = ''END You are already subscribed! Choose '3' to manage your subscriptions.''
                \<and> s1 = fresh_state"
    and d: "r2 = ''END You are already subscribed! Choose '3' to manage your subscriptions.''"
    and f: "s2 = s1"
    and g: "length (filter (\<lambda>r. phone_number r = example_phone) (db s2)) = 1"
    using subscribe_once [OF h, of two_decimals example_phone] by blast
  from c [unfolded n] have c': "startswith r1 ''CON ''"
      "db s1 = [\<lparr>phone_number = example_phone, subscribed_stocks = [],
                      market_open_notify = 0, market_close_notify = 0\<rparr>]"
    by (simp_all add: e)
  from a b c' d f g h n show ?thesis by blast
qed

section \<open>Selecting a stock\<close>




text \<open>
  Claim C7, as amended. When a subscriber record exists for the phone number, path
  \<open>3*1*add*n\<close> with a digit string \<open>n\<close> gives the response and the state that path
  \<open>1*n\<close> gives.
\<close>

theorem add_path_same_as_subscribe_path:
  assumes "py_isdigit n" and "get_subscriber phone (db s) = Some sub"
  shows "ussd_callback fmt phone (''3*1*add*'' @ n) s = ussd_callback fmt phone (''1*'' @ n) s"
  using assms by (rule add_path_delegates)

theorem add_path_same_as_subscribe_path_witness:
  "py_isdigit ''3''
   \<and> get_subscriber example_phone (db subscribed_state) =
       Some \<lparr>phone_number = example_phone, subscribed_stocks = [''Safaricom''],
             market_open_notify = 0, market_close_notify = 0\<rparr>
   \<and> ussd_callback two_decimals example_phone ''1*3'' subscribed_state =
       Inr (''CON Successfully subscribed to Equity.\<newline>1. Subscribe to another stock\<newline>0. Back to Main Menu'',
            subscribed_state\<lparr>db := [\<lparr>phone_number = example_phone, subscribed_stocks = [''Safaricom'', ''Equity''],
              market_open_notify = 0, market_close_notify = 0\<rparr>]\<rparr>)
   \<and> ussd_callback two_decimals example_phone ''3*1*add*3'' subscribed_state =
       ussd_callback two_decimals example_phone ''1*3'' subscribed_state"
proof -
  have d: "py_isdigit ''3''"
    by (simp add: py_isdigit_def py_isdigit_char_def)
  have g: "get_subscriber example_phone (db subscribed_state) =
       Some \<lparr>phone_number = example_phone, subscribed_stocks = [''Safaricom''],
             market_open_notify = 0, market_close_notify = 0\<rparr>"
    by (simp add: get_subscriber_def subscribed_state_def)
  have v: "ussd_callback two_decimals example_phone ''1*3'' subscribed_state =
       Inr (''CON Successfully subscribed to Equity.\<newline>1. Subscribe to another stock\<newline>0. Back to Main Menu'',
            subscribed_state\<lparr>db := [\<lparr>phone_number = example_phone, subscribed_stocks = [''Safaricom'', ''Equity''],
              market_open_notify = 0, market_close_notify = 0\<rparr>]\<rparr>)"
    by (simp add: eval_defs)
  from add_path_same_as_subscribe_path [OF d g, of two_decimals]
  have "ussd_callback two_decimals example_phone ''3*1*add*3'' subscribed_state =
       ussd_callback two_decimals example_phone ''1*3'' subscribed_state" by simp
  with d g v show ?thesis by blast
qed

text \<open>
  Without a record the two paths differ: the manage branch checks the subscriber first
  and ends the session, the subscribe branch rejects the number and shows the menu.
\<close>

theorem add_path_counterexample:
  "py_isdigit ''13''
   \<and> ussd_callback two_decimals example_phone ''3*1*add*13'' fresh_state =
       Inr (''END Error: Subscriber not found. Please re-subscribe.'', fresh_state)
   \<and> ussd_callback two_decimals example_phone ''1*13'' fresh_state =
       Inr (''CON Invalid stock number. Please try again.\<newline>Available Stocks:\<newline>1. Safaricom\<newline>2. KCB\<newline>3. Equity\<newline>4. EABL\<newline>5. Absa\<newline>6. NCBA\<newline>7. Stanbic\<newline>8. Bamburi\<newline>9. Britam\<newline>10. KenGen\<newline>Enter stock number to select.\<newline>0. Back to Main Menu'', fresh_state)
   \<and> ussd_callback two_decimals example_phone ''3*1*add*13'' fresh_state \<noteq>
       ussd_callback two_decimals example_phone ''1*13'' fresh_state"
  by (simp add: eval_defs)

lemma selection_valid_case:
  assumes "py_isdigit n"
    and "text1 = ''1*'' @ n \<or> text1 = ''3*1*add*'' @ n"
    and "text2 = ''1*'' @ n \<or> text2 = ''3*1*add*'' @ n"
    and "get_subscriber phone (db (s :: 'p state)) = Some sub" and "distinct (subscribed_stocks sub)"
    and "py_int n = Inr v" and "1 \<le> v" and "v \<le> int (length (CURRENT_STOCKS_DATA s))"
  shows "\<exists>r1 s1 sub1.
      ussd_callback fmt phone text1 s = Inr (r1, s1)
    \<and> get_subscriber phone (db s1) = Some sub1
    \<and> distinct (subscribed_stocks sub1)
    \<and> count_list (subscribed_stocks sub1) (name (CURRENT_STOCKS_DATA s ! nat (v - 1))) = 1
    \<and> (if name (CURRENT_STOCKS_DATA s ! nat (v - 1)) \<in> set (subscribed_stocks sub)
        then s1 = s
           \<and> r1 = ''CON You are already subscribed to '' @ name (CURRENT_STOCKS_DATA s ! nat (v - 1)) @
                   ''.\<newline>1. Subscribe to another stock\<newline>0. Back to Main Menu''
        else subscribed_stocks sub1 = subscribed_stocks sub @ [name (CURRENT_STOCKS_DATA s ! nat (v - 1))]
           \<and> r1 = ''CON Successfully subscribed to '' @ name (CURRENT_STOCKS_DATA s ! nat (v - 1)) @
                   ''.\<newline>1. Subscribe to another stock\<newline>0. Back to Main Menu'')
    \<and> ussd_callback fmt phone text2 s1 =
        Inr (''CON You are already subscribed to '' @ name (CURRENT_STOCKS_DATA s ! nat (v - 1)) @
             ''.\<newline>1. Subscribe to another stock\<newline>0. Back to Main Menu'', s1)"
proof -
  let ?nm = "name (CURRENT_STOCKS_DATA s ! nat (v - 1))"
  let ?already = "''CON You are already subscribed to '' @ ?nm @
                   ''.\<newline>1. Subscribe to another stock\<newline>0. Back to Main Menu''"
  have ns: "CHR ''*'' \<notin> set n" using assms(1) by (rule py_isdigit_no_star)
  have nz: "n \<noteq> ''0''" using assms(6,7) by (rule digits_not_back)
  note l1 = last_subscribe_path [OF ns]
  have path: "\<And>t (s0 :: 'p state) sub0. t = ''1*'' @ n \<or> t = ''3*1*add*'' @ n \<Longrightarrow> get_subscriber phone (db s0) = Some sub0 \<Longrightarrow>
      ussd_callback fmt phone t s0 = handle_stock_selection phone (''1*'' @ n) s0"
    using add_path_delegates [OF assms(1)] ussd_subscribe_path by metis
  have again: "\<And>(s1 :: 'p state) sub1. get_subscriber phone (db s1) = Some sub1 \<Longrightarrow>
      CURRENT_STOCKS_DATA s1 = CURRENT_STOCKS_DATA s \<Longrightarrow> ?nm \<in> set (subscribed_stocks sub1) \<Longrightarrow>
      ussd_callback fmt phone text2 s1 = Inr (?already, s1)"
  proof -
    fix s1 :: "'p state" and sub1
    assume g: "get_subscriber phone (db s1) = Some sub1"
      and c: "CURRENT_STOCKS_DATA s1 = CURRENT_STOCKS_DATA s"
      and m: "?nm \<in> set (subscribed_stocks sub1)"
    from assms(8) c have le: "v \<le> int (length (CURRENT_STOCKS_DATA s1))" by simp
    from m c have m': "name (CURRENT_STOCKS_DATA s1 ! nat (v - 1)) \<in> set (subscribed_stocks sub1)" by simp
    from hss_already [of "''1*'' @ n", unfolded l1, OF nz assms(6) assms(7) le g m']
    show "ussd_callback fmt phone text2 s1 = Inr (?already, s1)"
      unfolding path [OF assms(3) g] by (simp add: c)
  qed
  show ?thesis
  proof (cases "?nm \<in> set (subscribed_stocks sub)")
    case True
    have first: "ussd_callback fmt phone text1 s = Inr (?already, s)"
      unfolding path [OF assms(2) assms(4)]
      using hss_already [of "''1*'' @ n", unfolded l1, OF nz assms(6) assms(7) assms(8) assms(4) True]
      by simp
    have second: "ussd_callback fmt phone text2 s = Inr (?already, s)"
      by (rule again [OF assms(4) refl True])
    have "count_list (subscribed_stocks sub) ?nm = 1"
      using assms(5) True by (rule distinct_count_one)
    with first second True assms(4,5) show ?thesis by auto
  next
    case False
    let ?subs = "subscribed_stocks sub @ [?nm]"
    let ?s1 = "s\<lparr>db := update_subscribed_stocks phone ?subs (db s)\<rparr>"
    let ?sub1 = "sub\<lparr>subscribed_stocks := ?subs\<rparr>"
    have first: "ussd_callback fmt phone text1 s =
        Inr (''CON Successfully subscribed to '' @ ?nm @
             ''.\<newline>1. Subscribe to another stock\<newline>0. Back to Main Menu'', ?s1)"
      unfolding path [OF assms(2) assms(4)]
      using hss_new [of "''1*'' @ n", unfolded l1, OF nz assms(6) assms(7) assms(8) assms(4) False]
      by simp
    have g1: "get_subscriber phone (db ?s1) = Some ?sub1"
      by (simp add: get_subscriber_update_stocks assms(4))
    have d1: "distinct (subscribed_stocks ?sub1)"
      using assms(5) False by simp
    have m1: "?nm \<in> set (subscribed_stocks ?sub1)" by simp
    have c1: "count_list (subscribed_stocks ?sub1) ?nm = 1"
      using d1 m1 by (rule distinct_count_one)
    have second: "ussd_callback fmt phone text2 ?s1 = Inr (?already, ?s1)"
      by (rule again [OF g1 _ m1]) simp
    have e1: "subscribed_stocks ?sub1 = ?subs" by simp
    from first g1 d1 c1 e1 second False show ?thesis
      by (intro exI [of _ "''CON Successfully subscribed to '' @ ?nm @
             ''.\<newline>1. Subscribe to another stock\<newline>0. Back to Main Menu''"] exI [of _ ?s1] exI [of _ ?sub1])
         (simp only: if_False simp_thms)
  qed
qed

lemma selection_paths_same:
  assumes "py_isdigit n" and "t = ''1*'' @ n \<or> t = ''3*1*add*'' @ n"
    and "get_subscriber phone (db s) = Some sub"
  shows "ussd_callback fmt phone t s = handle_stock_selection phone (''1*'' @ n) s"
  using add_path_delegates [OF assms(1) assms(3), of fmt] assms(2) ussd_subscribe_path [of fmt phone n s]
  by auto

lemma selection_rejected_db:
  assumes "py_isdigit n"
    and "case py_int n of Inl e \<Rightarrow> True | Inr v \<Rightarrow> \<not> (1 \<le> v \<and> v \<le> int (length (CURRENT_STOCKS_DATA s)))"
  shows "\<exists>r1 s1. handle_stock_selection phone (''1*'' @ n) s = Inr (r1, s1) \<and> db s1 = db s"
proof -
  have ns: "CHR ''*'' \<notin> set n" using assms(1) by (rule py_isdigit_no_star)
  note l1 = last_subscribe_path [OF ns]
  show ?thesis
  proof (cases "n = ''0''")
    case True
    from hss_back [of "''1*'' @ n" phone s, unfolded l1, OF True] show ?thesis by simp
  next
    case nz: False
    show ?thesis
    proof (cases "py_int n")
      case (Inl e)
      from hss_not_number [of "''1*'' @ n" _ phone s, unfolded l1, OF nz Inl] show ?thesis
        by (simp add: display_stocks_menu_db)
    next
      case (Inr v)
      with assms(2) have "v < 1 \<or> int (length (CURRENT_STOCKS_DATA s)) < v" by auto
      from hss_out_of_range [of "''1*'' @ n" _ s phone, unfolded l1, OF nz Inr this] show ?thesis
        by (simp add: display_stocks_menu_db)
    qed
  qed
qed

text \<open>
  Claim C4. For a subscriber whose list has no name twice, a selection through
  \<open>1*n\<close> or \<open>3*1*add*n\<close> (\<open>n\<close> a digit string) leaves a list with no name twice.
  When \<open>n\<close> is not a valid index into the catalog the record is unchanged. When it
  is, and the name of the entry is in the list already, the state is unchanged and the
  answer is the "already subscribed" continue response; otherwise the name is appended.
  A second selection of the same entry, through either path, is answered "already
  subscribed" and changes nothing, so the name occurs exactly once.
\<close>

theorem selection_keeps_names_unique:
  assumes "py_isdigit n"
    and "text1 = ''1*'' @ n \<or> text1 = ''3*1*add*'' @ n"
    and "text2 = ''1*'' @ n \<or> text2 = ''3*1*add*'' @ n"
    and "get_subscriber phone (db (s :: 'p state)) = Some sub" and "distinct (subscribed_stocks sub)"
  shows "\<exists>r1 s1 sub1.
      ussd_callback fmt phone text1 s = Inr (r1, s1)
    \<and> get_subscriber phone (db s1) = Some sub1
    \<and> distinct (subscribed_stocks sub1)
    \<and> (case py_int n of
          Inl e \<Rightarrow> sub1 = sub
        | Inr v \<Rightarrow>
            if 1 \<le> v \<and> v \<le> int (length (CURRENT_STOCKS_DATA s))
            then count_list (subscribed_stocks sub1) (name (CURRENT_STOCKS_DATA s ! nat (v - 1))) = 1
               \<and> (if name (CURRENT_STOCKS_DATA s ! nat (v - 1)) \<in> set (subscribed_stocks sub)
                   then s1 = s
                      \<and> r1 = ''CON You are already subscribed to '' @ name (CURRENT_STOCKS_DATA s ! nat (v - 1)) @
                              ''.\<newline>1. Subscribe to another stock\<newline>0. Back to Main Menu''
                   else subscribed_stocks sub1 = subscribed_stocks sub @ [name (CURRENT_STOCKS_DATA s ! nat (v - 1))]
                      \<and> r1 = ''CON Successfully subscribed to '' @ name (CURRENT_STOCKS_DATA s ! nat (v - 1)) @
                              ''.\<newline>1. Subscribe to another stock\<newline>0. Back to Main Menu'')
               \<and> ussd_callback fmt phone text2 s1 =
                   Inr (''CON You are already subscribed to '' @ name (CURRENT_STOCKS_DATA s ! nat (v - 1)) @
                        ''.\<newline>1. Subscribe to another stock\<newline>0. Back to Main Menu'', s1)
            else sub1 = sub)"
proof (cases "case py_int n of Inl e \<Rightarrow> True | Inr v \<Rightarrow> \<not> (1 \<le> v \<and> v \<le> int (length (CURRENT_STOCKS_DATA s)))")
  case True
  from selection_rejected_db [OF assms(1) True, of phone] obtain r1 s1
    where a: "handle_stock_selection phone (''1*'' @ n) s = Inr (r1, s1)" and b: "db s1 = db s"
    by blast
  have "ussd_callback fmt phone text1 s = Inr (r1, s1)"
    unfolding selection_paths_same [OF assms(1) assms(2) assms(4)] by (rule a)
  moreover have "get_subscriber phone (db s1) = Some sub" using b assms(4) by simp
  ultimately show ?thesis using True assms(5)
    by (intro exI [of _ r1] exI [of _ s1] exI [of _ sub]) (auto split: sum.splits)
next
  case False
  then obtain v where i: "py_int n = Inr v" and lo: "1 \<le> v"
    and hi: "v \<le> int (length (CURRENT_STOCKS_DATA s))"
    by (auto split: sum.splits)
  from selection_valid_case [OF assms(1-5) i lo hi, of fmt] i lo hi show ?thesis
    by simp
qed

theorem selection_keeps_names_unique_witness:
  "py_isdigit ''2'' \<and> py_int ''2'' = Inr 2
   \<and> get_subscriber example_phone (db subscribed_state) =
       Some \<lparr>phone_number = example_phone, subscribed_stocks = [''Safaricom''],
             market_open_notify = 0, market_close_notify = 0\<rparr>
   \<and> name (CURRENT_STOCKS_DATA subscribed_state ! 1) = ''KCB''
   \<and> (\<exists>r1 s1 sub1.
         ussd_callback two_decimals example_phone ''1*2'' subscribed_state = Inr (r1, s1)
       \<and> get_subscriber example_phone (db s1) = Some sub1
       \<and> subscribed_stocks sub1 = [''Safaricom'', ''KCB'']
       \<and> count_list (subscribed_stocks sub1) ''KCB'' = 1
       \<and> ussd_callback two_decimals example_phone ''3*1*add*2'' s1 =
           Inr (''CON You are already subscribed to KCB.\<newline>1. Subscribe to another stock\<newline>0. Back to Main Menu'', s1))"
proof -
  let ?sub = "\<lparr>phone_number = example_phone, subscribed_stocks = [''Safaricom''],
             market_open_notify = 0, market_close_notify = 0\<rparr>"
  have d: "py_isdigit ''2''"
    by (simp add: py_isdigit_def py_isdigit_char_def)
  have i: "py_int ''2'' = Inr 2"
    by (simp add: eval_defs)
  have g: "get_subscriber example_phone (db subscribed_state) = Some ?sub"
    by (simp add: get_subscriber_def subscribed_state_def)
  have u: "distinct (subscribed_stocks ?sub)" by simp
  have len: "length (CURRENT_STOCKS_DATA subscribed_state) = 12"
    by (simp add: subscribed_state_def catalog12_def)
  have nm: "name (CURRENT_STOCKS_DATA subscribed_state ! 1) = ''KCB''"
    and nm': "name (CURRENT_STOCKS_DATA subscribed_state ! Suc 0) = ''KCB''"
    by (simp_all add: subscribed_state_def catalog12_def)
  have t1: "''1*2'' = ''1*'' @ ''2'' \<or> ''1*2'' = ''3*1*add*'' @ ''2''" by simp
  have t2: "''3*1*add*2'' = ''1*'' @ ''2'' \<or> ''3*1*add*2'' = ''3*1*add*'' @ ''2''" by simp
  obtain r1 s1 sub1 where
      a: "ussd_callback two_decimals example_phone ''1*2'' subscribed_state = Inr (r1, s1)"
    and b: "get_subscriber example_phone (db s1) = Some sub1"
    and c: "case py_int ''2'' of
              Inl e \<Rightarrow> sub1 = ?sub
            | Inr v \<Rightarrow>
                if 1 \<le> v \<and> v \<le> int (length (CURRENT_STOCKS_DATA subscribed_state))
                then count_list (subscribed_stocks sub1) (name (CURRENT_STOCKS_DATA subscribed_state ! nat (v - 1))) = 1
                   \<and> (if name (CURRENT_STOCKS_DATA subscribed_state ! nat (v - 1)) \<in> set (subscribed_stocks ?sub)
                       then s1 = subscribed_state
                          \<and> r1 = ''CON You are already subscribed to '' @
                                  name (CURRENT_STOCKS_DATA subscribed_state ! nat (v - 1)) @
                                  ''.\<newline>1. Subscribe to another stock\<newline>0. Back to Main Menu''
                       else subscribed_stocks sub1 =
                              subscribed_stocks ?sub @ [name (CURRENT_STOCKS_DATA subscribed_state ! nat (v - 1))]
                          \<and> r1 = ''CON Successfully subscribed to '' @
                                  name (CURRENT_STOCKS_DATA subscribed_state ! nat (v - 1)) @
                                  ''.\<newline>1. Subscribe to another stock\<newline>0. Back to Main Menu'')
                   \<and> ussd_callback two_decimals example_phone ''3*1*add*2'' s1 =
                       Inr (''CON You are already subscribed to '' @
                            name (CURRENT_STOCKS_DATA subscribed_state ! nat (v - 1)) @
                            ''.\<newline>1. Subscribe to another stock\<newline>0. Back to Main Menu'', s1)
                else sub1 = ?sub"
    using selection_keeps_names_unique [OF d t1 t2 g u, of two_decimals] by blast
  from c have c': "count_list (subscribed_stocks sub1) ''KCB'' = 1"
      "subscribed_stocks sub1 = [''Safaricom'', ''KCB'']"
      "ussd_callback two_decimals example_phone ''3*1*add*2'' s1 =
           Inr (''CON You are already subscribed to KCB.\<newline>1. Subscribe to another stock\<newline>0. Back to Main Menu'', s1)"
    by (simp_all add: i len nm nm')
  from a b c' have "\<exists>r1 s1 sub1.
         ussd_callback two_decimals example_phone ''1*2'' subscribed_state = Inr (r1, s1)
       \<and> get_subscriber example_phone (db s1) = Some sub1
       \<and> subscribed_stocks sub1 = [''Safaricom'', ''KCB'']
       \<and> count_list (subscribed_stocks sub1) ''KCB'' = 1
       \<and> ussd_callback two_decimals example_phone ''3*1*add*2'' s1 =
           Inr (''CON You are already subscribed to KCB.\<newline>1. Subscribe to another stock\<newline>0. Back to Main Menu'', s1)"
    by blast
  with d i g nm show ?thesis by blast
qed

section \<open>Invalid selections\<close>

lemma outside_add_context:
  assumes "\<not> (4 \<le> length ps \<and> py_lower (ps ! 2) = ''add'')" and "py_lower (last ps) \<noteq> ''add''"
  shows "\<not> (3 \<le> length ps \<and> py_lower (ps ! 2) = ''add'' \<and> py_isdigit (last ps))"
proof
  assume a: "3 \<le> length ps \<and> py_lower (ps ! 2) = ''add'' \<and> py_isdigit (last ps)"
  with assms(1) have "length ps = 3" by auto
  then have "last ps = ps ! 2" by (cases ps) (auto simp: last_conv_nth)
  with a assms(2) show False by simp
qed

text \<open>
  Claim C3, as amended. Let the trailing segment of the path be other than the back
  option \<open>0\<close>. Under \<open>1*\<close> and \<open>2*\<close> a segment that is not an integer, or an integer
  outside \<open>[1, length of the catalog]\<close>, is answered by a continue response: an error
  line followed by the catalog menu; no subscriber is looked up. Under \<open>3*1*\<close> and
  \<open>3*2*\<close> a missing subscriber ends the session. With a subscriber: after
  \<open>3*1*add*\<close> a digit string outside \<open>[1, length of the catalog]\<close> is answered as
  under \<open>1*\<close>; elsewhere under \<open>3*1*\<close> the word \<open>add\<close> opens the catalog menu and
  any other bad segment is answered by an error line followed by the current
  subscriptions; under \<open>3*2*\<close> a bad segment is answered by an error line followed by
  the two flags. Nothing is said of a segment after \<open>3*1*add*\<close> that is not a digit
  string.
\<close>

theorem invalid_selection_is_recoverable:
  assumes "seg = last (split_star text)" and "seg \<noteq> ''0''"
  shows
    "(startswith text ''1*'' \<and> bad_selection seg (length (CURRENT_STOCKS_DATA s)) \<longrightarrow>
        ussd_callback fmt phone text s =
          Inr (selection_error_line seg @ fst (display_stocks_menu phone ''1'' s),
               snd (display_stocks_menu phone ''1'' s)))
   \<and> (startswith text ''2*'' \<and> bad_selection seg (length (CURRENT_STOCKS_DATA s)) \<longrightarrow>
        ussd_callback fmt phone text s =
          Inr (selection_error_line seg @ fst (display_stocks_menu phone ''2'' s),
               snd (display_stocks_menu phone ''2'' s)))
   \<and> (startswith text ''3*1*'' \<longrightarrow>
        (case get_subscriber phone (db s) of
           None \<Rightarrow> ussd_callback fmt phone text s =
                     Inr (''END Error: Subscriber not found. Please re-subscribe.'', s)
         | Some sub \<Rightarrow>
             if 4 \<le> length (split_star text) \<and> py_lower (split_star text ! 2) = ''add''
             then py_isdigit seg \<and> bad_selection seg (length (CURRENT_STOCKS_DATA s)) \<longrightarrow>
                  ussd_callback fmt phone text s =
                    Inr (selection_error_line seg @ fst (display_stocks_menu phone ''1'' s),
                         snd (display_stocks_menu phone ''1'' s))
             else if py_lower seg = ''add''
             then ussd_callback fmt phone text s =
                    Inr (''CON Select stocks to add:\<newline>'' @ fst (display_stocks_menu phone ''3*1*add'' s),
                         snd (display_stocks_menu phone ''3*1*add'' s))
             else bad_selection seg (length (subscribed_stocks sub)) \<longrightarrow>
                  ussd_callback fmt phone text s =
                    Inr (removal_error_line seg @ ''Your current subscriptions:\<newline>'' @
                         join ''\<newline>'' (numbered (subscribed_stocks sub)) @
                         ''\<newline>Enter stock number to remove, or 'add' to add new stocks.\<newline>0. Back to Main Menu'',
                         s)))
   \<and> (startswith text ''3*2*'' \<longrightarrow>
        (case get_subscriber phone (db s) of
           None \<Rightarrow> ussd_callback fmt phone text s =
                     Inr (''END Error: Subscriber not found. Please re-subscribe.'', s)
         | Some sub \<Rightarrow>
             bad_selection seg 2 \<longrightarrow>
             ussd_callback fmt phone text s =
               Inr (''CON Invalid option. Please select 1 or 2.\<newline>'' @
                    ''1. Market Open: '' @ on_off (market_open_notify sub) @ ''\<newline>'' @
                    ''2. Market Close: '' @ on_off (market_close_notify sub) @ ''\<newline>'' @
                    ''Select an option to toggle.\<newline>0. Back to Main Menu'', s)))"
proof (intro conjI impI)
  assume "startswith text ''1*'' \<and> bad_selection seg (length (CURRENT_STOCKS_DATA s))"
  then show "ussd_callback fmt phone text s =
          Inr (selection_error_line seg @ fst (display_stocks_menu phone ''1'' s),
               snd (display_stocks_menu phone ''1'' s))"
    using assms hss_bad_selection [of "text" s phone] by (simp add: ussd_prefix_subscribe)
next
  assume "startswith text ''2*'' \<and> bad_selection seg (length (CURRENT_STOCKS_DATA s))"
  then show "ussd_callback fmt phone text s =
          Inr (selection_error_line seg @ fst (display_stocks_menu phone ''2'' s),
               snd (display_stocks_menu phone ''2'' s))"
    using assms hvd_bad_selection [of "text" s fmt phone] by (simp add: ussd_prefix_view)
next
  assume p: "startswith text ''3*1*''"
  show "case get_subscriber phone (db s) of
           None \<Rightarrow> ussd_callback fmt phone text s =
                     Inr (''END Error: Subscriber not found. Please re-subscribe.'', s)
         | Some sub \<Rightarrow>
             if 4 \<le> length (split_star text) \<and> py_lower (split_star text ! 2) = ''add''
             then py_isdigit seg \<and> bad_selection seg (length (CURRENT_STOCKS_DATA s)) \<longrightarrow>
                  ussd_callback fmt phone text s =
                    Inr (selection_error_line seg @ fst (display_stocks_menu phone ''1'' s),
                         snd (display_stocks_menu phone ''1'' s))
             else if py_lower seg = ''add''
             then ussd_callback fmt phone text s =
                    Inr (''CON Select stocks to add:\<newline>'' @ fst (display_stocks_menu phone ''3*1*add'' s),
                         snd (display_stocks_menu phone ''3*1*add'' s))
             else bad_selection seg (length (subscribed_stocks sub)) \<longrightarrow>
                  ussd_callback fmt phone text s =
                    Inr (removal_error_line seg @ ''Your current subscriptions:\<newline>'' @
                         join ''\<newline>'' (numbered (subscribed_stocks sub)) @
                         ''\<newline>Enter stock number to remove, or 'add' to add new stocks.\<newline>0. Back to Main Menu'',
                         s)"
  proof (cases "get_subscriber phone (db s)")
    case None
    then show ?thesis by (simp add: ussd_prefix_manage [OF p] hms_no_subscriber)
  next
    case (Some sub)
    note seg = assms(1)
    show ?thesis
    proof (cases "4 \<le> length (split_star text) \<and> py_lower (split_star text ! 2) = ''add''")
      case ctx: True
      have "py_isdigit seg \<and> bad_selection seg (length (CURRENT_STOCKS_DATA s)) \<longrightarrow>
                  ussd_callback fmt phone text s =
                    Inr (selection_error_line seg @ fst (display_stocks_menu phone ''1'' s),
                         snd (display_stocks_menu phone ''1'' s))"
      proof
        assume h: "py_isdigit seg \<and> bad_selection seg (length (CURRENT_STOCKS_DATA s))"
        then have d: "py_isdigit seg" and b: "bad_selection seg (length (CURRENT_STOCKS_DATA s))"
          by simp_all
        have na: "py_lower seg \<noteq> ''add''" using d by (rule py_isdigit_lower)
        have c: "3 \<le> length (split_star text) \<and> py_lower (split_star text ! 2) = ''add'' \<and> py_isdigit seg"
          using ctx d by simp
        from hms_bad_addition [OF Some, of "text", folded seg, OF assms(2) na c b]
        show "ussd_callback fmt phone text s =
                    Inr (selection_error_line seg @ fst (display_stocks_menu phone ''1'' s),
                         snd (display_stocks_menu phone ''1'' s))"
          by (simp add: ussd_prefix_manage [OF p])
      qed
      then show ?thesis
        by (simp only: Some option.case ctx if_True simp_thms)
    next
      case nctx: False
      show ?thesis
      proof (cases "py_lower seg = ''add''")
        case True
        show ?thesis
          apply (simp only: Some option.case nctx True if_False if_True simp_thms)
          using hms_add_menu [OF Some, of "text", folded seg, OF assms(2) True]
          by (simp add: ussd_prefix_manage [OF p])
      next
        case na: False
        have nd: "\<not> (3 \<le> length (split_star text) \<and> py_lower (split_star text ! 2) = ''add''
            \<and> py_isdigit seg)"
          using outside_add_context [OF nctx] na unfolding seg by blast
        show ?thesis
          apply (simp only: Some option.case nctx na if_False)
          using hms_bad_removal [OF Some, of "text", folded seg, OF assms(2) na nd]
          by (simp add: ussd_prefix_manage [OF p] current_subs_tail_def)
      qed
    qed
  qed
next
  assume p: "startswith text ''3*2*''"
  show "case get_subscriber phone (db s) of
           None \<Rightarrow> ussd_callback fmt phone text s =
                     Inr (''END Error: Subscriber not found. Please re-subscribe.'', s)
         | Some sub \<Rightarrow>
             bad_selection seg 2 \<longrightarrow>
             ussd_callback fmt phone text s =
               Inr (''CON Invalid option. Please select 1 or 2.\<newline>'' @
                    ''1. Market Open: '' @ on_off (market_open_notify sub) @ ''\<newline>'' @
                    ''2. Market Close: '' @ on_off (market_close_notify sub) @ ''\<newline>'' @
                    ''Select an option to toggle.\<newline>0. Back to Main Menu'', s)"
  proof (cases "get_subscriber phone (db s)")
    case None
    then show ?thesis by (simp add: ussd_prefix_prefs [OF p] hnp_no_subscriber)
  next
    case (Some sub)
    show ?thesis
    proof (cases "bad_selection seg 2")
      case False
      with Some show ?thesis by simp
    next
      case True
      from bad_toggle [OF assms(2) True] assms
      have n12: "last (split_star text) \<noteq> ''1''" "last (split_star text) \<noteq> ''2''"
        and nz: "last (split_star text) \<noteq> ''0''" by simp_all
      from hnp_invalid [OF Some n12 nz] Some True show ?thesis
        by (simp add: ussd_prefix_prefs [OF p] prefs_lines_def)
    qed
  qed
qed

theorem invalid_selection_is_recoverable_witness:
  "bad_selection ''x'' (length (CURRENT_STOCKS_DATA fresh_state))
   \<and> ussd_callback two_decimals example_phone ''1*x'' fresh_state =
       Inr (''CON Invalid input. Please enter a number.\<newline>Available Stocks:\<newline>1. Safaricom\<newline>2. KCB\<newline>3. Equity\<newline>4. EABL\<newline>5. Absa\<newline>6. NCBA\<newline>7. Stanbic\<newline>8. Bamburi\<newline>9. Britam\<newline>10. KenGen\<newline>Enter stock number to select.\<newline>0. Back to Main Menu'',
            fresh_state)
   \<and> bad_selection ''9'' (length [''Safaricom''])
   \<and> ussd_callback two_decimals example_phone ''3*1*9'' subscribed_state =
       Inr (''CON Invalid stock number to remove. Please try again.\<newline>Your current subscriptions:\<newline>1. Safaricom\<newline>Enter stock number to remove, or 'add' to add new stocks.\<newline>0. Back to Main Menu'',
            subscribed_state)
   \<and> py_isdigit ''13'' \<and> bad_selection ''13'' (length (CURRENT_STOCKS_DATA subscribed_state))
   \<and> ussd_callback two_decimals example_phone ''3*1*add*13'' subscribed_state =
       Inr (''CON Invalid stock number. Please try again.\<newline>Available Stocks:\<newline>1. Safaricom\<newline>2. KCB\<newline>3. Equity\<newline>4. EABL\<newline>5. Absa\<newline>6. NCBA\<newline>7. Stanbic\<newline>8. Bamburi\<newline>9. Britam\<newline>10. KenGen\<newline>Enter stock number to select.\<newline>0. Back to Main Menu'',
            subscribed_state)
   \<and> bad_selection ''7'' 2
   \<and> ussd_callback two_decimals example_phone ''3*2*7'' subscribed_state =
       Inr (''CON Invalid option. Please select 1 or 2.\<newline>1. Market Open: OFF\<newline>2. Market Close: OFF\<newline>Select an option to toggle.\<newline>0. Back to Main Menu'',
            subscribed_state)
   \<and> ussd_callback two_decimals example_phone ''3*2*7'' fresh_state =
       Inr (''END Error: Subscriber not found. Please re-subscribe.'', fresh_state)"
proof -
  let ?sub = "\<lparr>phone_number = example_phone, subscribed_stocks = [''Safaricom''],
             market_open_notify = 0, market_close_notify = 0\<rparr>"
  have g: "get_subscriber example_phone (db subscribed_state) = Some ?sub"
    by (simp add: get_subscriber_def subscribed_state_def)
  have n: "get_subscriber example_phone (db fresh_state) = None"
    by (simp add: get_subscriber_def fresh_state_def)
  have bx: "bad_selection ''x'' (length (CURRENT_STOCKS_DATA fresh_state))"
    and b9: "bad_selection ''9'' (length [''Safaricom''])"
    and b13: "bad_selection ''13'' (length (CURRENT_STOCKS_DATA subscribed_state))"
    and b7: "bad_selection ''7'' 2"
    by (simp_all add: bad_selection_def eval_defs)
  have d13: "py_isdigit ''13''"
    by (simp add: py_isdigit_def py_isdigit_char_def)
  have menu: "display_stocks_menu example_phone ''1'' fresh_state =
      (''Available Stocks:\<newline>1. Safaricom\<newline>2. KCB\<newline>3. Equity\<newline>4. EABL\<newline>5. Absa\<newline>6. NCBA\<newline>7. Stanbic\<newline>8. Bamburi\<newline>9. Britam\<newline>10. KenGen\<newline>Enter stock number to select.\<newline>0. Back to Main Menu'',
       fresh_state)"
    and menu': "display_stocks_menu example_phone ''1'' subscribed_state =
      (''Available Stocks:\<newline>1. Safaricom\<newline>2. KCB\<newline>3. Equity\<newline>4. EABL\<newline>5. Absa\<newline>6. NCBA\<newline>7. Stanbic\<newline>8. Bamburi\<newline>9. Britam\<newline>10. KenGen\<newline>Enter stock number to select.\<newline>0. Back to Main Menu'',
       subscribed_state)"
    by (simp_all add: eval_defs)
  have lx: "''x'' = last (split_star ''1*x'')" and l9: "''9'' = last (split_star ''3*1*9'')"
    and l13: "''13'' = last (split_star ''3*1*add*13'')"
    and l7: "''7'' = last (split_star ''3*2*7'')"
    by simp_all
  have px: "startswith ''1*x'' ''1*''" and p9: "startswith ''3*1*9'' ''3*1*''"
    and p13: "startswith ''3*1*add*13'' ''3*1*''"
    and p7: "startswith ''3*2*7'' ''3*2*''"
    by (simp_all add: startswith_def)
  from invalid_selection_is_recoverable [OF lx, where s = fresh_state and fmt = two_decimals and phone = example_phone]
    px bx
  have a: "ussd_callback two_decimals example_phone ''1*x'' fresh_state =
       Inr (''CON Invalid input. Please enter a number.\<newline>Available Stocks:\<newline>1. Safaricom\<newline>2. KCB\<newline>3. Equity\<newline>4. EABL\<newline>5. Absa\<newline>6. NCBA\<newline>7. Stanbic\<newline>8. Bamburi\<newline>9. Britam\<newline>10. KenGen\<newline>Enter stock number to select.\<newline>0. Back to Main Menu'',
            fresh_state)"
    by (simp add: menu selection_error_line_def py_int_def strip_int_def int_space_def ascii_digit_def)
  from invalid_selection_is_recoverable [OF l9, where s = subscribed_state and fmt = two_decimals and phone = example_phone]
    p9 b9
  have b: "ussd_callback two_decimals example_phone ''3*1*9'' subscribed_state =
       Inr (''CON Invalid stock number to remove. Please try again.\<newline>Your current subscriptions:\<newline>1. Safaricom\<newline>Enter stock number to remove, or 'add' to add new stocks.\<newline>0. Back to Main Menu'',
            subscribed_state)"
    by (simp add: g removal_error_line_def eval_defs)
  from invalid_selection_is_recoverable [OF l13, where s = subscribed_state and fmt = two_decimals and phone = example_phone]
    p13 b13 d13
  have e: "ussd_callback two_decimals example_phone ''3*1*add*13'' subscribed_state =
       Inr (''CON Invalid stock number. Please try again.\<newline>Available Stocks:\<newline>1. Safaricom\<newline>2. KCB\<newline>3. Equity\<newline>4. EABL\<newline>5. Absa\<newline>6. NCBA\<newline>7. Stanbic\<newline>8. Bamburi\<newline>9. Britam\<newline>10. KenGen\<newline>Enter stock number to select.\<newline>0. Back to Main Menu'',
            subscribed_state)"
    by (simp add: g menu' selection_error_line_def py_int_def strip_int_def int_space_def ascii_digit_def
          py_lower_def py_lower_char_def Let_def)
  from invalid_selection_is_recoverable [OF l7, where s = subscribed_state and fmt = two_decimals and phone = example_phone]
    p7 b7
  have c: "ussd_callback two_decimals example_phone ''3*2*7'' subscribed_state =
       Inr (''CON Invalid option. Please select 1 or 2.\<newline>1. Market Open: OFF\<newline>2. Market Close: OFF\<newline>Select an option to toggle.\<newline>0. Back to Main Menu'',
            subscribed_state)"
    by (simp add: g on_off_def)
  from invalid_selection_is_recoverable [OF l7, where s = fresh_state and fmt = two_decimals and phone = example_phone]
    p7
  have d: "ussd_callback two_decimals example_phone ''3*2*7'' fresh_state =
       Inr (''END Error: Subscriber not found. Please re-subscribe.'', fresh_state)"
    by (simp add: n)
  from bx a b9 b d13 b13 e b7 c d show ?thesis by blast
qed

text \<open>
  The claim as stated fails at the back option, which every handler tests before it
  reads a number: \<open>0\<close> is an integer outside \<open>[1, length]\<close> and is answered by the
  main menu, without an error line, in all four branches.
\<close>

theorem back_option_counterexample:
  "bad_selection ''0'' (length (CURRENT_STOCKS_DATA subscribed_state))
   \<and> bad_selection ''0'' (length [''Safaricom'']) \<and> bad_selection ''0'' 2
   \<and> ussd_callback two_decimals example_phone ''1*0'' subscribed_state =
       Inr (''CON Welcome to Share Price Tracker!\<newline>1. Subscribe\<newline>2. View Stocks\<newline>3. My Subscriptions\<newline>4. Unsubscribe'',
            subscribed_state)
   \<and> ussd_callback two_decimals example_phone ''2*0'' subscribed_state =
       Inr (''CON Welcome to Share Price Tracker!\<newline>1. Subscribe\<newline>2. View Stocks\<newline>3. My Subscriptions\<newline>4. Unsubscribe'',
            subscribed_state)
   \<and> ussd_callback two_decimals example_phone ''3*1*0'' subscribed_state =
       Inr (''CON Welcome to Share Price Tracker!\<newline>1. Subscribe\<newline>2. View Stocks\<newline>3. My Subscriptions\<newline>4. Unsubscribe'',
            subscribed_state)
   \<and> ussd_callback two_decimals example_phone ''3*2*0'' subscribed_state =
       Inr (''CON Welcome to Share Price Tracker!\<newline>1. Subscribe\<newline>2. View Stocks\<newline>3. My Subscriptions\<newline>4. Unsubscribe'',
            subscribed_state)"
  by (simp add: bad_selection_def eval_defs)

section \<open>Removing a subscription\<close>

text \<open>
  Claim C6. For a subscriber with \<open>L\<close> subscriptions and a segment \<open>k\<close> (not \<open>0\<close>,
  not \<open>add\<close>) that reads as an integer below 1 or above \<open>L\<close>, path \<open>3*1*k\<close> is
  answered by a continue response with an error line and the numbered list of the
  current subscriptions, and the state is unchanged.
\<close>

theorem remove_out_of_range:
  assumes "get_subscriber phone (db s) = Some sub"
    and "CHR ''*'' \<notin> set k" and "k \<noteq> ''0''" and "py_lower k \<noteq> ''add''"
    and "py_int k = Inr v" and "v < 1 \<or> int (length (subscribed_stocks sub)) < v"
  shows "ussd_callback fmt phone (''3*1*'' @ k) s =
           Inr (''CON Invalid stock number to remove. Please try again.\<newline>'' @
                ''Your current subscriptions:\<newline>'' @ join ''\<newline>'' (numbered (subscribed_stocks sub)) @
                ''\<newline>Enter stock number to remove, or 'add' to add new stocks.\<newline>0. Back to Main Menu'', s)"
proof -
  have parts: "split_star (''3*1*'' @ k) = [''3'', ''1'', k]"
    using assms(2) by (rule split_remove_path)
  have l: "last (split_star (''3*1*'' @ k)) = k" and p2: "split_star (''3*1*'' @ k) ! 2 = k"
    unfolding parts by simp_all
  have nd: "\<not> (3 \<le> length (split_star (''3*1*'' @ k)) \<and> py_lower k = ''add'' \<and> py_isdigit k)"
    using assms(4) by simp
  note branch = hms_out_of_range [OF assms(1), of "''3*1*'' @ k", unfolded l p2]
  have "handle_manage_subscribed_stocks phone (''3*1*'' @ k) s =
           Inr (''CON Invalid stock number to remove. Please try again.\<newline>'' @
                current_subs_tail (subscribed_stocks sub), s)"
    by (rule branch [OF assms(3) assms(4) nd assms(5) assms(6)])
  then show ?thesis
    unfolding ussd_remove_path by (simp add: current_subs_tail_def)
qed

theorem remove_out_of_range_witness:
  "get_subscriber example_phone (db subscribed_state) =
       Some \<lparr>phone_number = example_phone, subscribed_stocks = [''Safaricom''],
             market_open_notify = 0, market_close_notify = 0\<rparr>
   \<and> py_int ''5'' = Inr 5
   \<and> ussd_callback two_decimals example_phone ''3*1*5'' subscribed_state =
       Inr (''CON Invalid stock number to remove. Please try again.\<newline>Your current subscriptions:\<newline>1. Safaricom\<newline>Enter stock number to remove, or 'add' to add new stocks.\<newline>0. Back to Main Menu'',
            subscribed_state)"
proof -
  let ?sub = "\<lparr>phone_number = example_phone, subscribed_stocks = [''Safaricom''],
             market_open_notify = 0, market_close_notify = 0\<rparr>"
  have g: "get_subscriber example_phone (db subscribed_state) = Some ?sub"
    by (simp add: get_subscriber_def subscribed_state_def)
  have i: "py_int ''5'' = Inr 5"
    by (simp add: eval_defs)
  have r: "(5::int) < 1 \<or> int (length (subscribed_stocks ?sub)) < 5"
    by simp
  have "ussd_callback two_decimals example_phone (''3*1*'' @ ''5'') subscribed_state =
           Inr (''CON Invalid stock number to remove. Please try again.\<newline>'' @
                ''Your current subscriptions:\<newline>'' @ join ''\<newline>'' (numbered (subscribed_stocks ?sub)) @
                ''\<newline>Enter stock number to remove, or 'add' to add new stocks.\<newline>0. Back to Main Menu'',
                subscribed_state)"
    by (rule remove_out_of_range [OF g _ _ _ i r]) (simp_all add: py_lower_def)
  then have "ussd_callback two_decimals example_phone ''3*1*5'' subscribed_state =
       Inr (''CON Invalid stock number to remove. Please try again.\<newline>Your current subscriptions:\<newline>1. Safaricom\<newline>Enter stock number to remove, or 'add' to add new stocks.\<newline>0. Back to Main Menu'',
            subscribed_state)"
    by (simp add: numbered_def str_nat.simps digit_char_def)
  with g i show ?thesis by blast
qed

section \<open>Notification preferences\<close>

text \<open>
  Claim C8. For a subscriber whose market-open flag is 0 or 1, two successive requests
  with path \<open>3*2*1\<close> flip the stored flag and flip it back: after the first request the
  flag is the other value, after the second the whole state is the original one.
\<close>

theorem toggle_open_twice:
  assumes "table_ok (db s)" and "get_subscriber phone (db s) = Some sub"
    and "market_open_notify sub = 0 \<or> market_open_notify sub = 1"
  shows "\<exists>r1 s1 r2 s2.
      ussd_callback fmt phone ''3*2*1'' s = Inr (r1, s1)
    \<and> ussd_callback fmt phone ''3*2*1'' s1 = Inr (r2, s2)
    \<and> map_option market_open_notify (get_subscriber phone (db s1)) = Some (1 - market_open_notify sub)
    \<and> map_option market_open_notify (get_subscriber phone (db s2)) = Some (market_open_notify sub)
    \<and> s2 = s"
proof -
  let ?v = "if market_open_notify sub = 0 then 1 else (0::int)"
  let ?s1 = "s\<lparr>db := update_notification_preference phone Market_open_notify ?v (db s)\<rparr>"
  have last1: "last (split_star ''3*2*1'') = ''1''" by simp
  have first: "ussd_callback fmt phone ''3*2*1'' s =
      Inr (''CON Set Notification Preferences:\<newline>'' @ prefs_lines ?v (market_close_notify sub), ?s1)"
    unfolding ussd_toggle by (rule hnp_toggle_open [OF assms(2) last1])
  have got1: "get_subscriber phone (db ?s1) = Some (sub\<lparr>market_open_notify := ?v\<rparr>)"
    by (simp add: get_subscriber_update_pref assms(2))
  let ?w = "if market_open_notify (sub\<lparr>market_open_notify := ?v\<rparr>) = 0 then 1 else (0::int)"
  have w: "?w = market_open_notify sub" using assms(3) by auto
  have restored: "update_notification_preference phone Market_open_notify ?w (db ?s1) = db s"
    unfolding w using update_open_same [OF assms(1,2)] by (simp add: update_pref_twice)
  have second: "ussd_callback fmt phone ''3*2*1'' ?s1 =
      Inr (''CON Set Notification Preferences:\<newline>'' @
           prefs_lines ?w (market_close_notify (sub\<lparr>market_open_notify := ?v\<rparr>)),
           ?s1\<lparr>db := update_notification_preference phone Market_open_notify ?w (db ?s1)\<rparr>)"
    unfolding ussd_toggle by (rule hnp_toggle_open [OF got1 last1])
  have s2: "?s1\<lparr>db := update_notification_preference phone Market_open_notify ?w (db ?s1)\<rparr> = s"
    unfolding restored by simp
  have flip: "?v = 1 - market_open_notify sub" using assms(3) by auto
  from first second [unfolded s2] got1 flip assms(2) show ?thesis
    by auto
qed

theorem toggle_open_twice_witness:
  "table_ok (db subscribed_state)
   \<and> map_option market_open_notify (get_subscriber example_phone (db subscribed_state)) = Some 0
   \<and> (\<exists>r1 s1 r2. ussd_callback two_decimals example_phone ''3*2*1'' subscribed_state = Inr (r1, s1)
        \<and> map_option market_open_notify (get_subscriber example_phone (db s1)) = Some 1
        \<and> ussd_callback two_decimals example_phone ''3*2*1'' s1 = Inr (r2, subscribed_state))"
proof -
  let ?sub = "\<lparr>phone_number = example_phone, subscribed_stocks = [''Safaricom''],
               market_open_notify = 0, market_close_notify = 0\<rparr>"
  have h: "table_ok (db subscribed_state)"
    by (simp add: table_ok_def subscribed_state_def)
  have g: "get_subscriber example_phone (db subscribed_state) = Some ?sub"
    by (simp add: get_subscriber_def subscribed_state_def)
  have f: "market_open_notify ?sub = 0 \<or> market_open_notify ?sub = 1"
    by simp
  from toggle_open_twice [OF h g f, of two_decimals] show ?thesis
    using h g by auto
qed

section \<open>Unsubscribing\<close>

text \<open>
  Claim C10. Path \<open>4\<close> always answers with the terminal success message, whether or not
  a record exists for the phone number; afterwards the table holds no record for it, and
  a second request answers the same and leaves the table as it is.
\<close>

theorem unsubscribe_unconditional:
  "\<exists>s'. ussd_callback fmt phone ''4'' s =
          Inr (''END You have successfully unsubscribed from Stock Price Tracker. Goodbye!'', s')
      \<and> get_subscriber phone (db s') = None
      \<and> phone \<notin> set (map phone_number (db s'))
      \<and> ussd_callback fmt phone ''4'' s' =
          Inr (''END You have successfully unsubscribed from Stock Price Tracker. Goodbye!'', s')"
proof -
  let ?s' = "s\<lparr>db := remove_subscriber phone (db s)\<rparr>"
  have 1: "ussd_callback fmt phone ''4'' s = Inr (unsubscribed_response, ?s')"
    by (rule ussd_unsubscribe)
  have 2: "get_subscriber phone (db ?s') = None"
    by (simp add: get_remove_subscriber)
  have 3: "ussd_callback fmt phone ''4'' ?s' = Inr (unsubscribed_response, ?s')"
    by (simp add: ussd_unsubscribe remove_subscriber_idem)
  from 1 2 3 show ?thesis
    unfolding unsubscribed_response_def get_subscriber_None by blast
qed

section \<open>The messages of the dispatcher\<close>

lemma foldl_dict:
  "foldl (\<lambda>m st. m(py_lower (name st) \<mapsto> price st)) m0 stocks k =
     (case find (\<lambda>st. py_lower (name st) = k) (rev stocks) of
        Some st \<Rightarrow> Some (price st)
      | None \<Rightarrow> m0 k)"
proof (induction stocks rule: rev_induct)
  case Nil
  then show ?case by simp
next
  case (snoc st stocks)
  then show ?case by simp
qed

lemma stock_dict_lookup: "stock_dict stocks (py_lower nm) = spec_lookup stocks nm"
  by (simp add: stock_dict_def spec_lookup_def foldl_dict split: option.splits)

lemma message_parts_loop_map:
  "message_parts_loop fmt (stock_dict stocks) xs acc = acc @ map (spec_line fmt stocks) xs"
  by (induction xs arbitrary: acc) (simp_all add: stock_dict_lookup spec_line_def split: option.splits)

lemma build_message_spec:
  "build_message fmt nt (stock_dict stocks) subscribed = spec_message fmt nt stocks subscribed"
  by (simp add: build_message_def spec_message_def message_parts_loop_map)

lemma subscribers_loop_map:
  "subscribers_loop fmt nt (stock_dict stocks) rows acc =
     acc @ map (\<lambda>sub. (phone_number sub, spec_message fmt nt stocks (subscribed_stocks sub)))
               (filter (flag_set nt) rows)"
proof (induction rows arbitrary: acc)
  case Nil
  then show ?case by simp
next
  case (Cons sub rows)
  have send: "(if nt = Open_type \<and> market_open_notify sub = 1 then True
               else if nt = Close_type \<and> market_close_notify sub = 1 then True
               else False) = flag_set nt sub"
    by (cases nt) (simp_all add: flag_set_def)
  show ?case
    unfolding subscribers_loop.simps send Let_def
    by (simp add: Cons.IH build_message_spec)
qed

text \<open>
  Claim C9. For either kind of notification, unless it was sent today already or the
  catalog is empty, the dispatcher attempts one message for each subscriber whose flag
  for that kind is 1, in table order, and for no other subscriber. The message of a
  subscriber with subscriptions is a header followed by one line for each subscribed
  name, in order: the price of the catalog entry of that name, letter case ignored, or
  \<open>Price N/A\<close> when the catalog has no such entry. No name is left out.
\<close>

theorem dispatcher_messages:
  "fst (send_market_notification fmt today nt status rows stocks) =
     (if already_sent nt status today \<or> stocks = [] then []
      else map (\<lambda>sub. (phone_number sub, spec_message fmt nt stocks (subscribed_stocks sub)))
               (filter (flag_set nt) rows))"
  by (cases nt)
     (simp_all add: send_market_notification_def already_sent_def subscribers_loop_map get_all_subscribers_def)

theorem dispatcher_messages_witness:
  "fst (send_market_notification two_decimals ''2025-01-06'' Open_type
          \<lparr>sent_open = None, sent_close = None\<rparr> example_rows catalog12) =
     [(''254700000000'', ''Market Open Update:\<newline>safaricom: Ksh 15.50\<newline>Unlisted: Price N/A''),
      (''254722222222'', ''Market open update: No stocks selected for notifications. Dial USSD to select.'')]"
  unfolding dispatcher_messages
  by (simp add: already_sent_def flag_set_def example_rows_def spec_message_def spec_line_def
        spec_lookup_def type_name_def type_capitalize_def eval_defs)

end
